theory Spec2Isabelle
  imports Main "HOL-Library.Word" "HOL-Library.Sublist"
begin

section \<open>Errors, responses and the environment of a call\<close>

text \<open>
  The exceptions the client and the router can raise. \<open>OneClawApiError\<close> carries the two
  public fields of the class (status, detail). \<open>TypeError\<close> is what \<open>fetch\<close> rejects with on a
  network failure, \<open>SyntaxError\<close> what \<open>res.json()\<close> rejects with on a body that is not JSON,
  \<open>URIError\<close> what \<open>encodeURIComponent\<close> throws, \<open>UserError\<close> the class imported from fastmcp.
\<close>

datatype js_error =
    OneClawApiError nat string
  | UserError string
  | TypeError
  | SyntaxError
  | URIError

text \<open>
  The error envelope, read through the interface \<open>ApiErrorBody\<close>. The client reads only
  \<open>type\<close> and \<open>detail\<close>, and tests both for presence, so both are optional here.
\<close>

record ApiErrorBody =
  body_type :: "string option"
  body_detail :: "string option"

text \<open>The body of a successful token exchange: \<open>{ access_token: string; expires_in: number }\<close>.\<close>

record token_data =
  access_token :: string
  expires_in :: int

text \<open>
  A response of \<open>fetch\<close>. \<open>status\<close> is the unsigned status code. The body is represented by
  what \<open>res.json()\<close> delivers at each of the two types the client casts it to:
  \<open>error_json\<close> is the body read \<open>as ApiErrorBody\<close> (\<open>None\<close> when reading it throws, which the
  client catches), \<open>data_json\<close> is the body read \<open>as T\<close> (\<open>None\<close> when \<open>res.json()\<close> rejects).
  Each branch of the client reads one of the two only.
\<close>

record 'a response =
  status :: nat
  error_json :: "ApiErrorBody option"
  data_json :: "'a option"

datatype 'a fetch_result = Rejected | Responded "'a response"

text \<open>\<open>res.ok\<close>: the status is in the range 200 to 299.\<close>

definition ok :: "'a response \<Rightarrow> bool" where
  "ok res = (200 \<le> status res \<and> status res \<le> 299)"

text \<open>The \<open>init\<close> argument of \<open>request\<close>; the callers in the client pass a method and a body only.\<close>

record request_init =
  init_method :: "string option"
  init_body :: "string option"

text \<open>
  The calls of \<open>fetch\<close> a function issues, in order. \<open>AgentTokenPost url agent_id api_key\<close> is
  the POST of \<open>ensureToken\<close> (JSON body with the two credentials); \<open>ApiFetch url init headers\<close>
  is the call of \<open>request\<close>.
\<close>

datatype http_call =
    AgentTokenPost string string string
  | ApiFetch string request_init "(string \<times> string) list"

text \<open>
  What one run of \<open>ensureToken\<close> reads from outside: \<open>Date.now()\<close> at the freshness test,
  the outcome of the exchange \<open>fetch\<close> (if it is issued), and \<open>Date.now()\<close> when the new expiry
  is computed. Times are integral milliseconds; the client reads them, and the integral
  \<open>expires_in\<close> of the body, as doubles (\<open>to_number\<close> below).
\<close>

record token_env =
  now_check :: int
  exchange :: "token_data fetch_result"
  now_store :: int

record 'a request_env =
  auth_env :: token_env
  reply :: "'a fetch_result"

section \<open>Number to string\<close>

definition digit_char :: "nat \<Rightarrow> char" where
  "digit_char d =
     (if d = 0 then CHR ''0'' else if d = 1 then CHR ''1'' else if d = 2 then CHR ''2''
      else if d = 3 then CHR ''3'' else if d = 4 then CHR ''4'' else if d = 5 then CHR ''5''
      else if d = 6 then CHR ''6'' else if d = 7 then CHR ''7'' else if d = 8 then CHR ''8''
      else CHR ''9'')"

text \<open>The decimal digits of a status code, as a template literal prints a non-negative integer.\<close>

fun decimal :: "nat \<Rightarrow> string" where
  "decimal n = (if n < 10 then [digit_char n] else decimal (n div 10) @ [digit_char (n mod 10)])"

declare decimal.simps [simp del]

section \<open>Numbers\<close>

text \<open>
  The numbers of the source language are IEEE 754 doubles. The client computes with integral
  values only (times in milliseconds, the lifetime in seconds), so a number is an integer
  that a double holds, an infinity, or NaN, and every arithmetic result is the exact result
  rounded to the nearest double, ties to the even significand.
\<close>

datatype number = Finite int | PosInfinity | NegInfinity | NaN

text \<open>
  The distance between neighbouring doubles at magnitude \<open>a\<close>: 1 below \<open>2^53\<close>
  (9007199254740992), doubling with each further binary digit.
\<close>

fun quantum :: "nat \<Rightarrow> nat" where
  "quantum a = (if a < 9007199254740992 then 1 else 2 * quantum (a div 2))"

declare quantum.simps [simp del]

text \<open>Round a magnitude to the nearest multiple of its quantum, a tie to the even multiple.\<close>

definition round_nat :: "nat \<Rightarrow> nat" where
  "round_nat a =
     (let q = quantum a; m = a div q; r = a mod q in
      if 2 * r < q then m * q
      else if q < 2 * r then (m + 1) * q
      else if even m then m * q
      else (m + 1) * q)"

text \<open>
  The double nearest to an integer: how a numeral of that value is read, and how an exact
  integral result is stored. From \<open>2^1024\<close> on the rounded magnitude is an infinity.
\<close>

definition to_number :: "int \<Rightarrow> number" where
  "to_number x =
     (let r = round_nat (nat \<bar>x\<bar>) in
      if 2 ^ 1024 \<le> r then (if x < 0 then NegInfinity else PosInfinity)
      else Finite (if x < 0 then - int r else int r))"

text \<open>Negation, \<open>+\<close>, \<open>-\<close>, \<open>*\<close> and \<open><\<close> on numbers.\<close>

fun number_neg :: "number \<Rightarrow> number" where
  "number_neg (Finite a) = Finite (- a)"
| "number_neg PosInfinity = NegInfinity"
| "number_neg NegInfinity = PosInfinity"
| "number_neg NaN = NaN"

fun number_add :: "number \<Rightarrow> number \<Rightarrow> number" where
  "number_add (Finite a) (Finite b) = to_number (a + b)"
| "number_add NaN y = NaN"
| "number_add x NaN = NaN"
| "number_add PosInfinity NegInfinity = NaN"
| "number_add NegInfinity PosInfinity = NaN"
| "number_add PosInfinity y = PosInfinity"
| "number_add NegInfinity y = NegInfinity"
| "number_add x PosInfinity = PosInfinity"
| "number_add x NegInfinity = NegInfinity"

definition number_sub :: "number \<Rightarrow> number \<Rightarrow> number" where
  "number_sub x y = number_add x (number_neg y)"

fun number_sgn :: "number \<Rightarrow> int" where
  "number_sgn (Finite a) = sgn a"
| "number_sgn PosInfinity = 1"
| "number_sgn NegInfinity = - 1"
| "number_sgn NaN = 0"

definition number_mul :: "number \<Rightarrow> number \<Rightarrow> number" where
  "number_mul x y =
     (case (x, y) of
        (Finite a, Finite b) \<Rightarrow> to_number (a * b)
      | _ \<Rightarrow>
          if number_sgn x * number_sgn y = 0 then NaN
          else if 0 < number_sgn x * number_sgn y then PosInfinity
          else NegInfinity)"

fun number_less :: "number \<Rightarrow> number \<Rightarrow> bool" where
  "number_less (Finite a) (Finite b) = (a < b)"
| "number_less NaN y = False"
| "number_less x NaN = False"
| "number_less x NegInfinity = False"
| "number_less PosInfinity y = False"
| "number_less x PosInfinity = True"
| "number_less NegInfinity y = True"

section \<open>The client\<close>

datatype config =
    ClientConfig string string string
  | AgentCredentials string string string string

record OneClawClient =
  baseUrl :: string
  token :: string
  vaultId :: string
  agentCredentials :: "(string \<times> string) option"
  tokenExpiresAt :: number

text \<open>\<open>baseUrl.replace(/\/$/, "")\<close>: one trailing slash is removed.\<close>

definition strip_trailing_slash :: "string \<Rightarrow> string" where
  "strip_trailing_slash s = (if s \<noteq> [] \<and> last s = CHR ''/'' then butlast s else s)"

text \<open>
  The constructor. \<open>ClientConfig baseUrl token vaultId\<close> is the static configuration,
  \<open>AgentCredentials baseUrl agentId apiKey vaultId\<close> the one with \<open>agentId\<close> in it.
\<close>

fun new_OneClawClient :: "config \<Rightarrow> OneClawClient" where
  "new_OneClawClient (AgentCredentials b agentId apiKey v) =
     \<lparr>baseUrl = strip_trailing_slash b, token = [], vaultId = v,
      agentCredentials = Some (agentId, apiKey), tokenExpiresAt = Finite 0\<rparr>"
| "new_OneClawClient (ClientConfig b t v) =
     \<lparr>baseUrl = strip_trailing_slash b, token = t, vaultId = v,
      agentCredentials = None, tokenExpiresAt = Finite 0\<rparr>"

definition REFRESH_BUFFER_MS :: int where
  "REFRESH_BUFFER_MS = 60000"

text \<open>\<open>if (x)\<close> on an optional string: present and not empty.\<close>

definition truthy :: "string option \<Rightarrow> bool" where
  "truthy x = (case x of None \<Rightarrow> False | Some s \<Rightarrow> s \<noteq> [])"

text \<open>
  \<open>ensureToken\<close>. The result is the outcome (an exception or normal return), the client
  after the call, and the calls of \<open>fetch\<close> issued. The freshness test and the new expiry
  are computed in the arithmetic of doubles.
\<close>

definition ensureToken ::
  "OneClawClient \<Rightarrow> token_env \<Rightarrow> (js_error + unit) \<times> OneClawClient \<times> http_call list" where
  "ensureToken c e =
     (case agentCredentials c of
        None \<Rightarrow> (Inr (), c, [])
      | Some (agentId, apiKey) \<Rightarrow>
          if token c \<noteq> [] \<and>
             number_less (to_number (now_check e))
               (number_sub (tokenExpiresAt c) (Finite REFRESH_BUFFER_MS))
          then (Inr (), c, [])
          else
            let call = AgentTokenPost (baseUrl c @ ''/v1/auth/agent-token'') agentId apiKey in
            (case exchange e of
               Rejected \<Rightarrow> (Inl TypeError, c, [call])
             | Responded res \<Rightarrow>
                 if \<not> ok res then
                   let detail0 = ''HTTP '' @ decimal (status res);
                       detail =
                         (case error_json res of
                            None \<Rightarrow> detail0
                          | Some body \<Rightarrow>
                              if truthy (body_detail body) then the (body_detail body)
                              else detail0)
                   in (Inl (OneClawApiError (status res) (''Agent auth failed: '' @ detail)),
                       c, [call])
                 else
                   (case data_json res of
                      None \<Rightarrow> (Inl SyntaxError, c, [call])
                    | Some data \<Rightarrow>
                        (Inr (),
                         c\<lparr>token := access_token data,
                           tokenExpiresAt :=
                             number_add (to_number (now_store e))
                               (number_mul (to_number (expires_in data)) (Finite 1000))\<rparr>,
                         [call]))))"

definition headers ::
  "OneClawClient \<Rightarrow> token_env \<Rightarrow>
     (js_error + (string \<times> string) list) \<times> OneClawClient \<times> http_call list" where
  "headers c e =
     (case ensureToken c e of
        (Inl err, c', calls) \<Rightarrow> (Inl err, c', calls)
      | (Inr u, c', calls) \<Rightarrow>
          (Inr [(''Authorization'', ''Bearer '' @ token c'),
                (''Content-Type'', ''application/json'')], c', calls))"

definition QUOTA_MESSAGE :: string where
  "QUOTA_MESSAGE = ''Quota exhausted. Ask your human to upgrade the plan, add prepaid credits, or enable x402 micropayments at https://1claw.xyz/settings/billing''"

definition BILLING_URL :: string where
  "BILLING_URL = ''https://1claw.xyz/settings/billing''"

text \<open>
  \<open>request\<close>. A normal return is \<open>None\<close> for \<open>undefined\<close> (status 204) and \<open>Some v\<close> for the
  parsed body.
\<close>

definition request ::
  "OneClawClient \<Rightarrow> 'a request_env \<Rightarrow> string \<Rightarrow> request_init \<Rightarrow>
     (js_error + 'a option) \<times> OneClawClient \<times> http_call list" where
  "request c e url init =
     (case headers c (auth_env e) of
        (Inl err, c', calls) \<Rightarrow> (Inl err, c', calls)
      | (Inr hdrs, c', calls) \<Rightarrow>
          let calls' = calls @ [ApiFetch url init hdrs] in
          (case reply e of
             Rejected \<Rightarrow> (Inl TypeError, c', calls')
           | Responded res \<Rightarrow>
               if \<not> ok res then
                 let detail0 = ''HTTP '' @ decimal (status res);
                     detail =
                       (case error_json res of
                          None \<Rightarrow> detail0
                        | Some body \<Rightarrow>
                            if truthy (body_detail body) then the (body_detail body)
                            else detail0);
                     errorType =
                       (case error_json res of
                          None \<Rightarrow> []
                        | Some body \<Rightarrow>
                            if truthy (body_type body) then the (body_type body) else [])
                 in
                   if status res = 402 then (Inl (OneClawApiError 402 QUOTA_MESSAGE), c', calls')
                   else if status res = 403 \<and> errorType = ''resource_limit_exceeded'' then
                     (Inl (OneClawApiError 403
                            (''Resource limit reached: '' @ detail @
                             ''. Ask your human to upgrade the plan at https://1claw.xyz/settings/billing'')),
                      c', calls')
                   else (Inl (OneClawApiError (status res) detail), c', calls')
               else if status res = 204 then (Inr None, c', calls')
               else
                 (case data_json res of
                    None \<Rightarrow> (Inl SyntaxError, c', calls')
                  | Some v \<Rightarrow> (Inr (Some v), c', calls'))))"

text \<open>
  Any number of token resolutions in a row on one client, each with its own environment:
  the outcomes in order, the client at the end, and all calls of \<open>fetch\<close> issued.
\<close>

fun headers_seq ::
  "OneClawClient \<Rightarrow> token_env list \<Rightarrow>
     (js_error + (string \<times> string) list) list \<times> OneClawClient \<times> http_call list" where
  "headers_seq c [] = ([], c, [])"
| "headers_seq c (e # es) =
     (case headers c e of
        (r, c', calls) \<Rightarrow>
          (case headers_seq c' es of
             (rs, c'', calls') \<Rightarrow> (r # rs, c'', calls @ calls')))"

section \<open>The session router\<close>

record SessionAuth =
  session_token :: string
  session_vaultId :: string

text \<open>
  \<open>resolveClient\<close>, with the two module-level values it reads (\<open>baseUrl\<close>, \<open>sharedClient\<close>)
  as parameters.
\<close>

definition resolveClient ::
  "string \<Rightarrow> OneClawClient option \<Rightarrow> SessionAuth option \<Rightarrow> js_error + OneClawClient" where
  "resolveClient base sharedClient session =
     (case session of
        Some s \<Rightarrow> Inr (new_OneClawClient (ClientConfig base (session_token s) (session_vaultId s)))
      | None \<Rightarrow>
          (case sharedClient of
             Some c \<Rightarrow> Inr c
           | None \<Rightarrow>
               Inl (UserError ''Not authenticated. Provide Authorization and X-Vault-ID headers.'')))"

text \<open>
  The \<open>execute\<close> that \<open>registerTool\<close> installs: it resolves the client of the invocation and
  runs the tool the factory builds for that client.
\<close>

definition registered_execute ::
  "string \<Rightarrow> OneClawClient option \<Rightarrow> (OneClawClient \<Rightarrow> 'args \<Rightarrow> js_error + string) \<Rightarrow>
     'args \<Rightarrow> SessionAuth option \<Rightarrow> js_error + string" where
  "registered_execute base sharedClient factory args session =
     (case resolveClient base sharedClient session of
        Inl err \<Rightarrow> Inl err
      | Inr client \<Rightarrow> factory client args)"

section \<open>Path encoding\<close>

text \<open>
  A string of the source language is a sequence of 16-bit code units; \<open>encodePath\<close> is
  modelled on that representation, since \<open>encodeURIComponent\<close> reads surrogate pairs. (The
  client above only concatenates and compares strings, and uses \<open>string\<close>.)
\<close>

type_synonym code_unit = "16 word"
type_synonym js_string = "code_unit list"

definition ascii :: "string \<Rightarrow> js_string" where
  "ascii s = map of_char s"

definition SLASH :: code_unit where "SLASH = 0x2F"
definition PERCENT :: code_unit where "PERCENT = 0x25"

text \<open>\<open>s.split(sep)\<close> for a separator of one code unit: the empty string gives one empty piece.\<close>

fun split_on :: "'a \<Rightarrow> 'a list \<Rightarrow> 'a list list" where
  "split_on sep [] = [[]]"
| "split_on sep (x # xs) =
     (if x = sep then [] # split_on sep xs
      else (case split_on sep xs of [] \<Rightarrow> [[x]] | s # ss \<Rightarrow> (x # s) # ss))"

text \<open>\<open>pieces.join(sep)\<close>.\<close>

fun join_with :: "'a \<Rightarrow> 'a list list \<Rightarrow> 'a list" where
  "join_with sep [] = []"
| "join_with sep [s] = s"
| "join_with sep (s # t # ss) = s @ sep # join_with sep (t # ss)"

text \<open>
  \<open>encodeURIComponent\<close>, after the language standard: letters, digits and
  \<open>- _ . ! ~ * ' ( )\<close> are copied; any other code point is written as the octets of its
  UTF-8 encoding, each as \<open>%\<close> and two upper-case hexadecimal digits; a surrogate code unit
  that is not part of a lead-trail pair makes the function throw \<open>URIError\<close>.
\<close>

definition is_unescaped :: "code_unit \<Rightarrow> bool" where
  "is_unescaped u =
     ((0x41 \<le> u \<and> u \<le> 0x5A) \<or> (0x61 \<le> u \<and> u \<le> 0x7A) \<or> (0x30 \<le> u \<and> u \<le> 0x39)
      \<or> u \<in> set (ascii ''-_.!~*'' @ [0x27] @ ascii ''()''))"

definition is_lead :: "code_unit \<Rightarrow> bool" where
  "is_lead u = (0xD800 \<le> u \<and> u \<le> 0xDBFF)"

definition is_trail :: "code_unit \<Rightarrow> bool" where
  "is_trail u = (0xDC00 \<le> u \<and> u \<le> 0xDFFF)"

definition pair_code_point :: "code_unit \<Rightarrow> code_unit \<Rightarrow> nat" where
  "pair_code_point lead trail = (unat lead - 0xD800) * 0x400 + (unat trail - 0xDC00) + 0x10000"

definition utf8 :: "nat \<Rightarrow> 8 word list" where
  "utf8 cp =
     (if cp < 0x80 then [of_nat cp]
      else if cp < 0x800 then [of_nat (0xC0 + cp div 0x40), of_nat (0x80 + cp mod 0x40)]
      else if cp < 0x10000 then
        [of_nat (0xE0 + cp div 0x1000), of_nat (0x80 + cp div 0x40 mod 0x40),
         of_nat (0x80 + cp mod 0x40)]
      else
        [of_nat (0xF0 + cp div 0x40000), of_nat (0x80 + cp div 0x1000 mod 0x40),
         of_nat (0x80 + cp div 0x40 mod 0x40), of_nat (0x80 + cp mod 0x40)])"

definition HEX_DIGITS :: js_string where
  "HEX_DIGITS = ascii ''0123456789ABCDEF''"

definition percent_octet :: "8 word \<Rightarrow> js_string" where
  "percent_octet b = [PERCENT, HEX_DIGITS ! (unat b div 16), HEX_DIGITS ! (unat b mod 16)]"

definition percent_utf8 :: "nat \<Rightarrow> js_string" where
  "percent_utf8 cp = concat (map percent_octet (utf8 cp))"

fun encodeURIComponent :: "js_string \<Rightarrow> js_error + js_string" where
  "encodeURIComponent [] = Inr []"
| "encodeURIComponent (u # us) =
     (if is_unescaped u then
        (case encodeURIComponent us of Inl err \<Rightarrow> Inl err | Inr r \<Rightarrow> Inr (u # r))
      else if is_trail u then Inl URIError
      else if is_lead u then
        (case us of
           [] \<Rightarrow> Inl URIError
         | v # vs \<Rightarrow>
             if is_trail v then
               (case encodeURIComponent vs of
                  Inl err \<Rightarrow> Inl err
                | Inr r \<Rightarrow> Inr (percent_utf8 (pair_code_point u v) @ r))
             else Inl URIError)
      else
        (case encodeURIComponent us of
           Inl err \<Rightarrow> Inl err
         | Inr r \<Rightarrow> Inr (percent_utf8 (unat u) @ r)))"

text \<open>\<open>xs.map(f)\<close> for a callback that may throw: the first exception ends the traversal.\<close>

fun map_throwing :: "('a \<Rightarrow> js_error + 'b) \<Rightarrow> 'a list \<Rightarrow> js_error + 'b list" where
  "map_throwing f [] = Inr []"
| "map_throwing f (x # xs) =
     (case f x of
        Inl err \<Rightarrow> Inl err
      | Inr y \<Rightarrow> (case map_throwing f xs of Inl err \<Rightarrow> Inl err | Inr ys \<Rightarrow> Inr (y # ys)))"

text \<open>\<open>encodePath\<close>: split on the slash, encode each piece, join with the slash.\<close>

definition encodePath :: "js_string \<Rightarrow> js_error + js_string" where
  "encodePath path =
     (case map_throwing encodeURIComponent (split_on SLASH path) of
        Inl err \<Rightarrow> Inl err
      | Inr segs \<Rightarrow> Inr (join_with SLASH segs))"

text \<open>
  A string without unpaired surrogates (what \<open>isWellFormed()\<close> tests): the inputs on which
  \<open>encodeURIComponent\<close> does not throw.
\<close>

fun well_formed :: "js_string \<Rightarrow> bool" where
  "well_formed [] = True"
| "well_formed (u # us) =
     (if is_lead u then (case us of [] \<Rightarrow> False | v # vs \<Rightarrow> is_trail v \<and> well_formed vs)
      else \<not> is_trail u \<and> well_formed us)"

section \<open>Auxiliary facts\<close>

subsection \<open>Facts about numbers\<close>

lemma quantum_small: "a < 9007199254740992 \<Longrightarrow> quantum a = 1"
  by (subst quantum.simps) simp

lemma round_nat_small: "a < 9007199254740992 \<Longrightarrow> round_nat a = a"
  by (simp add: round_nat_def quantum_small)

lemma to_number_exact: "\<bar>x\<bar> < 9007199254740992 \<Longrightarrow> to_number x = Finite x"
proof -
  assume a: "\<bar>x\<bar> < 9007199254740992"
  then have n: "nat \<bar>x\<bar> < 9007199254740992" by simp
  have p: "(9007199254740992::nat) < 2 ^ 1024" by simp
  from n p have "\<not> 2 ^ 1024 \<le> nat \<bar>x\<bar>" by linarith
  with n show ?thesis
    by (auto simp: to_number_def round_nat_small Let_def)
qed

lemma quantum_range:
  "9007199254740992 \<le> a \<Longrightarrow>
   2 \<le> quantum a \<and> 4503599627370496 \<le> a div quantum a"
proof (induction a rule: quantum.induct)
  case (1 a)
  show ?case
  proof (cases "a div 2 < 9007199254740992")
    case True
    with "1.prems" have q: "quantum a = 2"
      by (subst quantum.simps) (simp add: quantum_small)
    from "1.prems" have "4503599627370496 \<le> a div 2" by simp
    with q show ?thesis by simp
  next
    case False
    with "1.prems" "1.IH" have ih: "2 \<le> quantum (a div 2)
        \<and> 4503599627370496 \<le> a div 2 div quantum (a div 2)"
      by simp
    from "1.prems" have q: "quantum a = 2 * quantum (a div 2)"
      by (subst quantum.simps) simp
    have "a div (2 * quantum (a div 2)) = a div 2 div quantum (a div 2)"
      by (simp add: div_mult2_eq)
    with ih q show ?thesis by simp
  qed
qed

lemma round_nat_large: "9007199254740992 \<le> a \<Longrightarrow> 9007199254740992 \<le> round_nat a"
proof -
  assume a: "9007199254740992 \<le> a"
  let ?q = "quantum a" and ?m = "a div quantum a"
  from quantum_range [OF a] have q: "2 \<le> ?q" and m: "4503599627370496 \<le> ?m" by simp_all
  have "4503599627370496 * 2 \<le> ?m * ?q" using m q by (rule mult_le_mono)
  then have lo: "9007199254740992 \<le> ?m * ?q" by simp
  have "?m * ?q \<le> (?m + 1) * ?q" by simp
  with lo have hi: "9007199254740992 \<le> (?m + 1) * ?q" by linarith
  from lo hi show ?thesis
    by (simp add: round_nat_def Let_def)
qed

lemma to_number_large:
  "9007199254740992 \<le> x \<Longrightarrow>
   to_number x = PosInfinity \<or> (\<exists>r. to_number x = Finite r \<and> 9007199254740992 \<le> r)"
proof -
  assume a: "9007199254740992 \<le> x"
  then have "9007199254740992 \<le> nat \<bar>x\<bar>" by simp
  from round_nat_large [OF this] a show ?thesis
    by (auto simp: to_number_def Let_def)
qed

lemma to_number_large_neg:
  "x \<le> - 9007199254740992 \<Longrightarrow>
   to_number x = NegInfinity \<or> (\<exists>r. to_number x = Finite r \<and> r \<le> - 9007199254740992)"
proof -
  assume a: "x \<le> - 9007199254740992"
  then have "9007199254740992 \<le> nat \<bar>x\<bar>" by simp
  from round_nat_large [OF this] a show ?thesis
    by (auto simp: to_number_def Let_def)
qed

lemma less_sub_exact:
  assumes n: "\<bar>n\<bar> \<le> 8640000000000000"
  shows "number_less (to_number n) (number_sub (Finite t) (Finite b)) = (n < t - b)"
proof -
  have tn: "to_number n = Finite n" using n by (simp add: to_number_exact)
  have sub: "number_sub (Finite t) (Finite b) = to_number (t - b)" by (simp add: number_sub_def)
  consider "\<bar>t - b\<bar> < 9007199254740992" | "9007199254740992 \<le> t - b"
    | "t - b \<le> - 9007199254740992" by linarith
  then show ?thesis
  proof cases
    case 1
    then show ?thesis by (simp add: tn sub to_number_exact)
  next
    case 2
    from to_number_large [OF 2] n 2 show ?thesis
      by (auto simp: tn sub)
  next
    case 3
    from to_number_large_neg [OF 3] n 3 show ?thesis
      by (auto simp: tn sub)
  qed
qed

lemma expiry_exact:
  assumes "\<bar>n\<bar> \<le> 8640000000000000" and "\<bar>s\<bar> \<le> 367199254740"
  shows "number_add (to_number n) (number_mul (to_number s) (Finite 1000)) = Finite (n + s * 1000)"
proof -
  from assms have a: "\<bar>n\<bar> < 9007199254740992" and b: "\<bar>s\<bar> < 9007199254740992"
    and c: "\<bar>s * 1000\<bar> < 9007199254740992" and d: "\<bar>n + s * 1000\<bar> < 9007199254740992"
    by (simp_all add: abs_mult)
  then show ?thesis by (simp add: to_number_exact number_mul_def)
qed

lemma expiry_rounds_to_even:
  "number_add (to_number 1011) (number_mul (to_number 9007199254740) (Finite 1000))
     = Finite 9007199254741012"
  by (simp add: to_number_def round_nat_def quantum.simps Let_def number_mul_def)

lemma to_number_rounds:
  "to_number 9007199254740993 = Finite 9007199254740992"
  "to_number (- 9007199254740995) = Finite (- 9007199254740996)"
  by (simp_all add: to_number_def round_nat_def quantum.simps Let_def)

subsection \<open>Facts about the client\<close>

lemma ensureToken_static:
  "agentCredentials c = None \<Longrightarrow> ensureToken c e = (Inr (), c, [])"
  by (simp add: ensureToken_def)

lemma headers_static:
  "agentCredentials c = None \<Longrightarrow>
   headers c e = (Inr [(''Authorization'', ''Bearer '' @ token c),
                       (''Content-Type'', ''application/json'')], c, [])"
  by (simp add: headers_def ensureToken_static)

lemma headers_seq_static:
  "agentCredentials c = None \<Longrightarrow>
   headers_seq c es =
     (replicate (length es) (Inr [(''Authorization'', ''Bearer '' @ token c),
                                  (''Content-Type'', ''application/json'')]), c, [])"
  by (induction es) (simp_all add: headers_static)

lemma headers_static_client:
  "headers (new_OneClawClient (ClientConfig b t v)) te
     = (Inr [(''Authorization'', ''Bearer '' @ t), (''Content-Type'', ''application/json'')],
        new_OneClawClient (ClientConfig b t v), [])"
  by (simp add: headers_def ensureToken_def)

lemma ensureToken_fresh:
  "agentCredentials c = Some (agentId, apiKey) \<Longrightarrow> token c \<noteq> [] \<Longrightarrow>
   number_less (to_number (now_check e)) (number_sub (tokenExpiresAt c) (Finite 60000)) \<Longrightarrow>
   ensureToken c e = (Inr (), c, [])"
  by (simp add: ensureToken_def REFRESH_BUFFER_MS_def)

lemma ensureToken_stale_calls:
  "agentCredentials c = Some (agentId, apiKey) \<Longrightarrow>
   \<not> (token c \<noteq> [] \<and>
      number_less (to_number (now_check e)) (number_sub (tokenExpiresAt c) (Finite 60000))) \<Longrightarrow>
   snd (snd (ensureToken c e)) = [AgentTokenPost (baseUrl c @ ''/v1/auth/agent-token'') agentId apiKey]"
  by (simp add: ensureToken_def REFRESH_BUFFER_MS_def Let_def
           split: fetch_result.splits option.splits)

lemma ensureToken_stale_success:
  "agentCredentials c = Some (agentId, apiKey) \<Longrightarrow>
   \<not> (token c \<noteq> [] \<and>
      number_less (to_number (now_check e)) (number_sub (tokenExpiresAt c) (Finite 60000))) \<Longrightarrow>
   exchange e = Responded res \<Longrightarrow> ok res \<Longrightarrow> data_json res = Some d \<Longrightarrow>
   ensureToken c e =
     (Inr (),
      c\<lparr>token := access_token d,
        tokenExpiresAt := number_add (to_number (now_store e))
                            (number_mul (to_number (expires_in d)) (Finite 1000))\<rparr>,
      [AgentTokenPost (baseUrl c @ ''/v1/auth/agent-token'') agentId apiKey])"
  by (simp add: ensureToken_def REFRESH_BUFFER_MS_def Let_def)

lemma ensureToken_failure:
  "exchange e = Responded res \<Longrightarrow> \<not> ok res \<Longrightarrow> ensureToken c e = (r, c', calls) \<Longrightarrow>
   calls \<noteq> [] \<Longrightarrow>
   r = Inl (OneClawApiError (status res)
             (''Agent auth failed: '' @
              (case error_json res of
                 None \<Rightarrow> ''HTTP '' @ decimal (status res)
               | Some body \<Rightarrow>
                   if truthy (body_detail body) then the (body_detail body)
                   else ''HTTP '' @ decimal (status res))))
   \<and> c' = c"
  by (auto simp: ensureToken_def Let_def split: option.splits if_splits)

lemma decimal_402: "decimal 402 = ''402''" by code_simp

lemma decimal_401: "decimal 401 = ''401''" by code_simp

lemma decimal_403: "decimal 403 = ''403''" by code_simp

lemma decimal_404: "decimal 404 = ''404''" by code_simp

lemma decimal_500: "decimal 500 = ''500''" by code_simp

lemma digit_char_value: "d < 10 \<Longrightarrow> of_char (digit_char d) = 48 + (d::nat)"
proof -
  assume "d < 10"
  then have "d = 0 \<or> d = 1 \<or> d = 2 \<or> d = 3 \<or> d = 4 \<or> d = 5 \<or> d = 6 \<or> d = 7
    \<or> d = 8 \<or> d = 9"
    by arith
  then show ?thesis
    by (elim disjE) (simp_all add: digit_char_def)
qed

lemma decimal_value: "foldl (\<lambda>a ch. 10 * a + (of_char ch - 48)) 0 (decimal n) = n"
proof (induction n rule: decimal.induct)
  case (1 n)
  show ?case
  proof (cases "n < 10")
    case True
    then show ?thesis
      by (subst decimal.simps) (simp add: digit_char_value)
  next
    case False
    have m: "n mod 10 < 10" by simp
    from False "1.IH" show ?thesis
      by (subst decimal.simps) (simp add: digit_char_value [OF m])
  qed
qed

lemma sublist_mid: "sublist d (p @ d @ s)"
  unfolding sublist_def by blast

lemma sublist_end: "sublist d (p @ q @ d)"
proof -
  have "p @ q @ d = (p @ q) @ d @ []" by simp
  then show ?thesis unfolding sublist_def by blast
qed

subsection \<open>Facts about path encoding\<close>

lemma is_unescaped_ascii: "is_unescaped u \<Longrightarrow> u < 0x80"
  unfolding is_unescaped_def ascii_def
  by (auto simp: word_le_nat_alt word_less_nat_alt)

lemma unescaped_not_surrogate: "is_unescaped u \<Longrightarrow> \<not> is_lead u \<and> \<not> is_trail u"
  using is_unescaped_ascii [of u]
  by (auto simp: is_lead_def is_trail_def word_le_nat_alt word_less_nat_alt)

lemma lead_not_trail: "is_lead u \<Longrightarrow> \<not> is_trail u"
  by (auto simp: is_lead_def is_trail_def word_le_nat_alt)

lemma slash_plain: "\<not> is_unescaped SLASH" "\<not> is_lead SLASH" "\<not> is_trail SLASH" "SLASH \<noteq> PERCENT"
  by (simp_all add: is_unescaped_def is_lead_def is_trail_def SLASH_def PERCENT_def ascii_def)

lemma hex_digits_unescaped: "u \<in> set HEX_DIGITS \<Longrightarrow> is_unescaped u"
  by (auto simp: HEX_DIGITS_def ascii_def is_unescaped_def)

lemma length_hex_digits: "length HEX_DIGITS = 16"
  by (simp add: HEX_DIGITS_def ascii_def)

lemma percent_octet_alphabet: "u \<in> set (percent_octet b) \<Longrightarrow> u = PERCENT \<or> is_unescaped u"
proof -
  have "unat b < 256" using unsigned_less [of b] by simp
  then have d: "unat b div 16 < length HEX_DIGITS" and m: "unat b mod 16 < length HEX_DIGITS"
    by (simp_all add: length_hex_digits less_mult_imp_div_less)
  assume "u \<in> set (percent_octet b)"
  then have "u = PERCENT \<or> u = HEX_DIGITS ! (unat b div 16) \<or> u = HEX_DIGITS ! (unat b mod 16)"
    by (auto simp: percent_octet_def)
  with nth_mem [OF d] nth_mem [OF m] show ?thesis
    by (auto intro: hex_digits_unescaped)
qed

lemma percent_utf8_alphabet: "u \<in> set (percent_utf8 cp) \<Longrightarrow> u = PERCENT \<or> is_unescaped u"
  by (auto simp: percent_utf8_def dest: percent_octet_alphabet)

lemma encodeURIComponent_alphabet:
  "encodeURIComponent s = Inr r \<Longrightarrow> u \<in> set r \<Longrightarrow> u = PERCENT \<or> is_unescaped u"
proof (induction s arbitrary: r rule: encodeURIComponent.induct)
  case 1
  then show ?case by simp
next
  case (2 c cs)
  show ?case
  proof (cases "is_unescaped c")
    case True
    with "2.prems" "2.IH"(1) show ?thesis
      by (auto split: sum.splits)
  next
    case nu: False
    show ?thesis
    proof (cases "is_trail c")
      case True
      with nu "2.prems" show ?thesis by simp
    next
      case nt: False
      show ?thesis
      proof (cases "is_lead c")
        case True
        with nu nt "2.prems" "2.IH"(2) show ?thesis
          by (auto split: sum.splits list.splits if_splits dest: percent_utf8_alphabet)
      next
        case False
        with nu nt "2.prems" "2.IH"(3) show ?thesis
          by (auto split: sum.splits dest: percent_utf8_alphabet)
      qed
    qed
  qed
qed

lemma encodeURIComponent_no_slash: "encodeURIComponent s = Inr r \<Longrightarrow> SLASH \<notin> set r"
  using encodeURIComponent_alphabet [of s r SLASH] slash_plain by auto

lemma encodeURIComponent_error: "encodeURIComponent s = Inl err \<Longrightarrow> err = URIError"
proof (induction s arbitrary: err rule: encodeURIComponent.induct)
  case 1
  then show ?case by simp
next
  case (2 c cs)
  show ?case
  proof (cases "is_unescaped c")
    case True
    with "2.prems" "2.IH"(1) show ?thesis
      by (simp split: sum.splits)
  next
    case nu: False
    show ?thesis
    proof (cases "is_trail c")
      case True
      with nu "2.prems" show ?thesis by simp
    next
      case nt: False
      show ?thesis
      proof (cases "is_lead c")
        case True
        show ?thesis
        proof (cases cs)
          case Nil
          with nu nt True "2.prems" show ?thesis by simp
        next
          case (Cons v vs)
          with nu nt True "2.prems" "2.IH"(2) show ?thesis
            by (cases "is_trail v") (simp_all split: sum.splits)
        qed
      next
        case False
        with nu nt "2.prems" "2.IH"(3) show ?thesis
          by (simp split: sum.splits)
      qed
    qed
  qed
qed

lemma encodeURIComponent_well_formed:
  "(\<exists>r. encodeURIComponent s = Inr r) = well_formed s"
proof (induction s rule: encodeURIComponent.induct)
  case 1
  then show ?case by simp
next
  case (2 c cs)
  show ?case
  proof (cases "is_unescaped c")
    case True
    with "2.IH"(1) unescaped_not_surrogate [OF True] show ?thesis
      by (auto split: sum.splits)
  next
    case nu: False
    show ?thesis
    proof (cases "is_trail c")
      case True
      with nu show ?thesis by (auto dest: lead_not_trail)
    next
      case nt: False
      show ?thesis
      proof (cases "is_lead c")
        case True
        with nu nt "2.IH"(2) show ?thesis
          by (cases cs) (auto split: sum.splits)
      next
        case False
        with nu nt "2.IH"(3) show ?thesis
          by (auto split: sum.splits)
      qed
    qed
  qed
qed

lemma split_on_not_Nil: "split_on sep xs \<noteq> []"
  by (induction xs) (auto split: list.splits)

lemma split_on_plain: "sep \<notin> set s \<Longrightarrow> split_on sep s = [s]"
  by (induction s) auto

lemma split_on_append: "sep \<notin> set s \<Longrightarrow> split_on sep (s @ sep # rest) = s # split_on sep rest"
  by (induction s) auto

lemma split_on_join:
  "segs \<noteq> [] \<Longrightarrow> \<forall>s \<in> set segs. sep \<notin> set s \<Longrightarrow> split_on sep (join_with sep segs) = segs"
proof (induction sep segs rule: join_with.induct)
  case (1 sep)
  then show ?case by simp
next
  case (2 sep s)
  then show ?case by (simp add: split_on_plain)
next
  case (3 sep s t ss)
  then show ?case by (simp add: split_on_append)
qed

lemma join_split_on: "join_with sep (split_on sep xs) = xs"
proof (induction xs)
  case Nil
  then show ?case by simp
next
  case (Cons x xs)
  obtain s ss where sp: "split_on sep xs = s # ss"
    using split_on_not_Nil [of sep xs] by (cases "split_on sep xs") auto
  with Cons show ?case
    by (cases ss) auto
qed

lemma map_throwing_Inr:
  "map_throwing f xs = Inr ys \<Longrightarrow> map Inr ys = map f xs"
  by (induction xs arbitrary: ys) (auto split: sum.splits)

lemma map_throwing_total:
  "(\<exists>ys. map_throwing f xs = Inr ys) = (\<forall>x \<in> set xs. \<exists>y. f x = Inr y)"
  by (induction xs) (auto split: sum.splits)

lemma well_formed_plain_Cons:
  "\<not> is_lead u \<Longrightarrow> \<not> is_trail u \<Longrightarrow> well_formed (u # us) = well_formed us"
  by simp

lemma well_formed_split:
  "well_formed p = (\<forall>s \<in> set (split_on SLASH p). well_formed s)"
proof (induction p rule: well_formed.induct)
  case 1
  then show ?case by simp
next
  case (2 u us)
  obtain s ss where sp: "split_on SLASH us = s # ss"
    using split_on_not_Nil [of SLASH us] by (cases "split_on SLASH us") auto
  show ?case
  proof (cases "is_lead u")
    case lead: True
    then have ne: "u \<noteq> SLASH" using slash_plain by auto
    show ?thesis
    proof (cases us)
      case Nil
      with lead ne show ?thesis by simp
    next
      case (Cons v vs)
      obtain t ts where spv: "split_on SLASH vs = t # ts"
        using split_on_not_Nil [of SLASH vs] by (cases "split_on SLASH vs") auto
      show ?thesis
      proof (cases "is_trail v")
        case True
        then have nev: "v \<noteq> SLASH" using slash_plain by auto
        from "2.IH"(1) [OF lead Cons] spv
        have "well_formed vs = (well_formed t \<and> (\<forall>s \<in> set ts. well_formed s))" by simp
        with lead True ne nev Cons spv show ?thesis by simp
      next
        case False
        have "\<not> well_formed (u # v # t)" using lead False by simp
        moreover have "split_on SLASH (u # us) = (u # v # t) # ts \<or> split_on SLASH (u # us) = [u] # split_on SLASH vs"
          using ne Cons spv by auto
        moreover have "\<not> well_formed [u]" using lead by simp
        ultimately show ?thesis using lead False Cons by auto
      qed
    qed
  next
    case nl: False
    show ?thesis
    proof (cases "u = SLASH")
      case True
      with nl "2.IH"(2) slash_plain show ?thesis by simp
    next
      case False
      with nl "2.IH"(2) sp show ?thesis by auto
    qed
  qed
qed

lemma encodePath_well_formed: "(\<exists>q. encodePath p = Inr q) = well_formed p"
proof -
  have "(\<exists>q. encodePath p = Inr q)
      = (\<exists>segs. map_throwing encodeURIComponent (split_on SLASH p) = Inr segs)"
    by (auto simp: encodePath_def split: sum.splits)
  also have "\<dots> = (\<forall>s \<in> set (split_on SLASH p). well_formed s)"
    by (simp add: map_throwing_total encodeURIComponent_well_formed)
  also have "\<dots> = well_formed p"
    by (rule well_formed_split [symmetric])
  finally show ?thesis .
qed

lemma encodePath_segments:
  assumes "encodePath p = Inr q"
  shows "map Inr (split_on SLASH q) = map encodeURIComponent (split_on SLASH p)"
proof -
  from assms obtain segs where
    segs: "map_throwing encodeURIComponent (split_on SLASH p) = Inr segs"
    and q: "q = join_with SLASH segs"
    by (auto simp: encodePath_def split: sum.splits)
  from map_throwing_Inr [OF segs]
  have m: "map Inr segs = map encodeURIComponent (split_on SLASH p)" .
  then have len: "length segs = length (split_on SLASH p)"
    by (metis length_map)
  then have ne: "segs \<noteq> []" using split_on_not_Nil [of SLASH p] by auto
  have "\<forall>s \<in> set segs. SLASH \<notin> set s"
  proof
    fix s assume "s \<in> set segs"
    then have "Inr s \<in> set (map encodeURIComponent (split_on SLASH p))"
      using m by (metis image_eqI list.set_map)
    then obtain x where "encodeURIComponent x = Inr s" by auto
    then show "SLASH \<notin> set s" by (rule encodeURIComponent_no_slash)
  qed
  with ne have "split_on SLASH (join_with SLASH segs) = segs"
    by (rule split_on_join)
  with q m show ?thesis by simp
qed

lemmas encode_eval = encodePath_def ascii_def SLASH_def PERCENT_def is_unescaped_def is_lead_def
  is_trail_def percent_utf8_def percent_octet_def utf8_def HEX_DIGITS_def pair_code_point_def

lemma set_join_with: "u \<in> set (join_with sep segs) \<Longrightarrow> u = sep \<or> (\<exists>s \<in> set segs. u \<in> set s)"
  by (induction sep segs rule: join_with.induct) auto

lemma encodePath_join:
  "encodePath p = Inr q \<Longrightarrow>
   \<exists>segs. map Inr segs = map encodeURIComponent (split_on SLASH p) \<and> q = join_with SLASH segs"
  by (auto simp: encodePath_def split: sum.splits dest: map_throwing_Inr)

lemma encodePath_alphabet:
  assumes "encodePath p = Inr q" and "u \<in> set q"
  shows "u = SLASH \<or> u = PERCENT \<or> is_unescaped u"
proof -
  from encodePath_join [OF assms(1)] obtain segs where
    m: "map Inr segs = map encodeURIComponent (split_on SLASH p)" and q: "q = join_with SLASH segs"
    by blast
  from assms(2) q set_join_with [of u SLASH segs]
  consider "u = SLASH" | s where "s \<in> set segs" "u \<in> set s" by blast
  then show ?thesis
  proof cases
    case 1
    then show ?thesis by simp
  next
    case 2
    then have "Inr s \<in> set (map encodeURIComponent (split_on SLASH p))"
      using m by (metis image_eqI list.set_map)
    then obtain x where "encodeURIComponent x = Inr s" by auto
    from encodeURIComponent_alphabet [OF this 2(2)] show ?thesis by simp
  qed
qed

lemma encodePath_error: "encodePath p = Inl err \<Longrightarrow> err = URIError"
proof -
  have "map_throwing encodeURIComponent xs = Inl err \<Longrightarrow> err = URIError" for xs
    by (induction xs) (auto split: sum.splits dest: encodeURIComponent_error)
  then show "encodePath p = Inl err \<Longrightarrow> err = URIError"
    by (auto simp: encodePath_def split: sum.splits)
qed

section \<open>Token resolution\<close>

text \<open>
  Claim C1. For a client with agent credentials: the first call of \<open>ensureToken\<close> on a newly
  constructed client issues exactly one exchange POST, and so does any call while no token is
  cached; a call while a token is cached and the current time is earlier than the cached
  expiry minus 60000 ms issues no call and leaves the client unchanged; a call at or after
  that instant issues exactly one exchange POST. When the exchange answers with a 2xx response
  whose body parses, the token becomes the response's \<open>access_token\<close> and the expiry becomes
  the time of storing plus \<open>expires_in\<close> times 1000; a following call earlier than that new
  expiry minus 60000 ms (the token not being empty) issues nothing, and one at or after it
  issues exactly one more exchange POST. The comparison, the subtraction, the product and the
  sum are those of doubles; for a current time in the range of time values
  (at most 8640000000000000 in magnitude) the test is the exact integer comparison, and for a
  lifetime of at most 367199254740 seconds in magnitude the stored expiry is the exact
  integer sum.
\<close>

theorem ensureToken_refresh_schedule:
  assumes cred: "agentCredentials c = Some (agentId, apiKey)"
  shows
    "snd (snd (ensureToken (new_OneClawClient (AgentCredentials b agentId apiKey v)) e0))
       = [AgentTokenPost (strip_trailing_slash b @ ''/v1/auth/agent-token'') agentId apiKey]
     \<and> (token c = [] \<longrightarrow>
          snd (snd (ensureToken c e))
            = [AgentTokenPost (baseUrl c @ ''/v1/auth/agent-token'') agentId apiKey])
     \<and> (token c \<noteq> [] \<and>
          number_less (to_number (now_check e)) (number_sub (tokenExpiresAt c) (Finite 60000)) \<longrightarrow>
          ensureToken c e = (Inr (), c, []))
     \<and> (token c \<noteq> [] \<and>
          \<not> number_less (to_number (now_check e)) (number_sub (tokenExpiresAt c) (Finite 60000)) \<longrightarrow>
          snd (snd (ensureToken c e))
            = [AgentTokenPost (baseUrl c @ ''/v1/auth/agent-token'') agentId apiKey])
     \<and> ((token c = [] \<or>
           \<not> number_less (to_number (now_check e)) (number_sub (tokenExpiresAt c) (Finite 60000))) \<and>
          exchange e = Responded res \<and> ok res \<and> data_json res = Some d \<longrightarrow>
          ensureToken c e =
            (Inr (),
             c\<lparr>token := access_token d,
               tokenExpiresAt := number_add (to_number (now_store e))
                                   (number_mul (to_number (expires_in d)) (Finite 1000))\<rparr>,
             [AgentTokenPost (baseUrl c @ ''/v1/auth/agent-token'') agentId apiKey])
          \<and> (access_token d \<noteq> [] \<and>
               number_less (to_number (now_check e2))
                 (number_sub (number_add (to_number (now_store e))
                                (number_mul (to_number (expires_in d)) (Finite 1000)))
                    (Finite 60000)) \<longrightarrow>
               ensureToken (fst (snd (ensureToken c e))) e2
                 = (Inr (), fst (snd (ensureToken c e)), []))
          \<and> (\<not> number_less (to_number (now_check e2))
                 (number_sub (number_add (to_number (now_store e))
                                (number_mul (to_number (expires_in d)) (Finite 1000)))
                    (Finite 60000)) \<longrightarrow>
               snd (snd (ensureToken (fst (snd (ensureToken c e))) e2))
                 = [AgentTokenPost (baseUrl c @ ''/v1/auth/agent-token'') agentId apiKey]))
     \<and> (\<bar>now_check e\<bar> \<le> 8640000000000000 \<and> tokenExpiresAt c = Finite t \<longrightarrow>
          number_less (to_number (now_check e)) (number_sub (tokenExpiresAt c) (Finite 60000))
            = (now_check e < t - 60000))
     \<and> (\<bar>now_store e\<bar> \<le> 8640000000000000 \<and> \<bar>expires_in d\<bar> \<le> 367199254740 \<longrightarrow>
          number_add (to_number (now_store e)) (number_mul (to_number (expires_in d)) (Finite 1000))
            = Finite (now_store e + expires_in d * 1000))"
proof (intro conjI impI)
  let ?c0 = "new_OneClawClient (AgentCredentials b agentId apiKey v)"
  have "agentCredentials ?c0 = Some (agentId, apiKey)" and "token ?c0 = []"
    and "baseUrl ?c0 = strip_trailing_slash b"
    by simp_all
  then show "snd (snd (ensureToken ?c0 e0))
       = [AgentTokenPost (strip_trailing_slash b @ ''/v1/auth/agent-token'') agentId apiKey]"
    using ensureToken_stale_calls [of ?c0 agentId apiKey e0] by simp
next
  assume "token c = []"
  then show "snd (snd (ensureToken c e))
            = [AgentTokenPost (baseUrl c @ ''/v1/auth/agent-token'') agentId apiKey]"
    using ensureToken_stale_calls [OF cred, of e] by simp
next
  assume "token c \<noteq> [] \<and>
          number_less (to_number (now_check e)) (number_sub (tokenExpiresAt c) (Finite 60000))"
  then show "ensureToken c e = (Inr (), c, [])"
    using ensureToken_fresh [OF cred, of e] by simp
next
  assume "token c \<noteq> [] \<and>
          \<not> number_less (to_number (now_check e)) (number_sub (tokenExpiresAt c) (Finite 60000))"
  then show "snd (snd (ensureToken c e))
            = [AgentTokenPost (baseUrl c @ ''/v1/auth/agent-token'') agentId apiKey]"
    using ensureToken_stale_calls [OF cred, of e] by simp
next
  assume a: "(token c = [] \<or>
           \<not> number_less (to_number (now_check e)) (number_sub (tokenExpiresAt c) (Finite 60000))) \<and>
          exchange e = Responded res \<and> ok res \<and> data_json res = Some d"
  then have stale: "\<not> (token c \<noteq> [] \<and>
      number_less (to_number (now_check e)) (number_sub (tokenExpiresAt c) (Finite 60000)))"
    by auto
  let ?x = "number_add (to_number (now_store e))
              (number_mul (to_number (expires_in d)) (Finite 1000))"
  let ?c1 = "c\<lparr>token := access_token d, tokenExpiresAt := ?x\<rparr>"
  from a stale have run: "ensureToken c e =
            (Inr (), ?c1, [AgentTokenPost (baseUrl c @ ''/v1/auth/agent-token'') agentId apiKey])"
    using ensureToken_stale_success [OF cred, of e res d] by simp
  show "ensureToken c e =
            (Inr (), ?c1, [AgentTokenPost (baseUrl c @ ''/v1/auth/agent-token'') agentId apiKey])"
    by (rule run)
  have cred1: "agentCredentials ?c1 = Some (agentId, apiKey)" using cred by simp
  {
    assume "access_token d \<noteq> [] \<and>
       number_less (to_number (now_check e2)) (number_sub ?x (Finite 60000))"
    then show "ensureToken (fst (snd (ensureToken c e))) e2
                 = (Inr (), fst (snd (ensureToken c e)), [])"
      using ensureToken_fresh [OF cred1, of e2] run by simp
  }
  {
    assume "\<not> number_less (to_number (now_check e2)) (number_sub ?x (Finite 60000))"
    then show "snd (snd (ensureToken (fst (snd (ensureToken c e))) e2))
                 = [AgentTokenPost (baseUrl c @ ''/v1/auth/agent-token'') agentId apiKey]"
      using ensureToken_stale_calls [OF cred1, of e2] run by simp
  }
next
  assume "\<bar>now_check e\<bar> \<le> 8640000000000000 \<and> tokenExpiresAt c = Finite t"
  then show "number_less (to_number (now_check e)) (number_sub (tokenExpiresAt c) (Finite 60000))
            = (now_check e < t - 60000)"
    using less_sub_exact [of "now_check e" t 60000] by simp
next
  assume "\<bar>now_store e\<bar> \<le> 8640000000000000 \<and> \<bar>expires_in d\<bar> \<le> 367199254740"
  then show "number_add (to_number (now_store e))
               (number_mul (to_number (expires_in d)) (Finite 1000))
            = Finite (now_store e + expires_in d * 1000)"
    using expiry_exact [of "now_store e" "expires_in d"] by simp
qed

theorem ensureToken_refresh_schedule_witness:
  "ensureToken
       (new_OneClawClient (AgentCredentials ''https://api.1claw.xyz/'' ''agent-1'' ''ocv_key'' ''vault-1''))
       \<lparr>now_check = 1000,
        exchange = Responded \<lparr>status = 200, error_json = None,
                     data_json = Some \<lparr>access_token = ''tok1'', expires_in = 3600\<rparr>\<rparr>,
        now_store = 1010\<rparr>
     = (Inr (),
        \<lparr>baseUrl = ''https://api.1claw.xyz'', token = ''tok1'', vaultId = ''vault-1'',
         agentCredentials = Some (''agent-1'', ''ocv_key''), tokenExpiresAt = Finite 3601010\<rparr>,
        [AgentTokenPost ''https://api.1claw.xyz/v1/auth/agent-token'' ''agent-1'' ''ocv_key''])
   \<and> ensureToken
       \<lparr>baseUrl = ''https://api.1claw.xyz'', token = ''tok1'', vaultId = ''vault-1'',
        agentCredentials = Some (''agent-1'', ''ocv_key''), tokenExpiresAt = Finite 3601010\<rparr>
       \<lparr>now_check = 3541009, exchange = Rejected, now_store = 3541009\<rparr>
     = (Inr (),
        \<lparr>baseUrl = ''https://api.1claw.xyz'', token = ''tok1'', vaultId = ''vault-1'',
         agentCredentials = Some (''agent-1'', ''ocv_key''), tokenExpiresAt = Finite 3601010\<rparr>, [])
   \<and> ensureToken
       \<lparr>baseUrl = ''https://api.1claw.xyz'', token = ''tok1'', vaultId = ''vault-1'',
        agentCredentials = Some (''agent-1'', ''ocv_key''), tokenExpiresAt = Finite 3601010\<rparr>
       \<lparr>now_check = 3541010,
        exchange = Responded \<lparr>status = 200, error_json = None,
                     data_json = Some \<lparr>access_token = ''tok2'', expires_in = 3600\<rparr>\<rparr>,
        now_store = 3541020\<rparr>
     = (Inr (),
        \<lparr>baseUrl = ''https://api.1claw.xyz'', token = ''tok2'', vaultId = ''vault-1'',
         agentCredentials = Some (''agent-1'', ''ocv_key''), tokenExpiresAt = Finite 7141020\<rparr>,
        [AgentTokenPost ''https://api.1claw.xyz/v1/auth/agent-token'' ''agent-1'' ''ocv_key''])
   \<and> ensureToken
       \<lparr>baseUrl = ''https://api.1claw.xyz'', token = ''tok1'', vaultId = ''vault-1'',
        agentCredentials = Some (''agent-1'', ''ocv_key''), tokenExpiresAt = Finite 3601010\<rparr>
       \<lparr>now_check = 3541010,
        exchange = Responded \<lparr>status = 200, error_json = None,
                     data_json = Some \<lparr>access_token = ''tok3'', expires_in = 9007199254740\<rparr>\<rparr>,
        now_store = 1011\<rparr>
     = (Inr (),
        \<lparr>baseUrl = ''https://api.1claw.xyz'', token = ''tok3'', vaultId = ''vault-1'',
         agentCredentials = Some (''agent-1'', ''ocv_key''),
         tokenExpiresAt = Finite 9007199254741012\<rparr>,
        [AgentTokenPost ''https://api.1claw.xyz/v1/auth/agent-token'' ''agent-1'' ''ocv_key''])"
proof -
  let ?c0 = "new_OneClawClient (AgentCredentials ''https://api.1claw.xyz/'' ''agent-1'' ''ocv_key'' ''vault-1'')"
  let ?c1 = "\<lparr>baseUrl = ''https://api.1claw.xyz'', token = ''tok1'', vaultId = ''vault-1'',
        agentCredentials = Some (''agent-1'', ''ocv_key''), tokenExpiresAt = Finite 3601010\<rparr>"
  let ?d1 = "\<lparr>access_token = ''tok1'', expires_in = 3600\<rparr>"
  let ?d2 = "\<lparr>access_token = ''tok2'', expires_in = 3600\<rparr>"
  let ?d3 = "\<lparr>access_token = ''tok3'', expires_in = 9007199254740\<rparr>"
  let ?r1 = "\<lparr>status = 200, error_json = None, data_json = Some ?d1\<rparr>"
  let ?r2 = "\<lparr>status = 200, error_json = None, data_json = Some ?d2\<rparr>"
  let ?r3 = "\<lparr>status = 200, error_json = None, data_json = Some ?d3\<rparr>"
  let ?e1 = "\<lparr>now_check = 1000, exchange = Responded ?r1, now_store = 1010\<rparr>"
  let ?early = "\<lparr>now_check = 3541009, exchange = Rejected, now_store = 3541009\<rparr>"
  let ?late = "\<lparr>now_check = 3541010, exchange = Responded ?r2, now_store = 3541020\<rparr>"
  let ?huge = "\<lparr>now_check = 3541010, exchange = Responded ?r3, now_store = 1011\<rparr>"
  have cred0: "agentCredentials ?c0 = Some (''agent-1'', ''ocv_key'')" by simp
  have cred1: "agentCredentials ?c1 = Some (''agent-1'', ''ocv_key'')" by simp
  have ok1: "ok ?r1" and ok2: "ok ?r2" and ok3: "ok ?r3" by (simp_all add: ok_def)
  note first = ensureToken_refresh_schedule [OF cred0,
      where b = "''https://api.1claw.xyz/''" and v = "''vault-1''" and ?e0.0 = ?e1
        and e = ?e1 and res = ?r1 and d = ?d1 and ?e2.0 = ?early and t = 0]
  have x1: "number_add (to_number 1010) (number_mul (to_number 3600) (Finite 1000)) = Finite 3601010"
    by (simp add: to_number_exact number_mul_def)
  have run1: "ensureToken ?c0 ?e1
     = (Inr (), ?c1, [AgentTokenPost ''https://api.1claw.xyz/v1/auth/agent-token'' ''agent-1'' ''ocv_key''])"
    using first ok1 by (simp add: strip_trailing_slash_def x1)
  have early: "number_less (to_number 3541009) (number_sub (Finite 3601010) (Finite 60000))"
    by (simp add: to_number_exact number_sub_def)
  have run2: "ensureToken ?c1 ?early = (Inr (), ?c1, [])"
    using run1 ok1 early first by (simp add: strip_trailing_slash_def x1)
  have late: "\<not> number_less (to_number 3541010) (number_sub (Finite 3601010) (Finite 60000))"
    by (simp add: to_number_exact number_sub_def)
  have x2: "number_add (to_number 3541020) (number_mul (to_number 3600) (Finite 1000)) = Finite 7141020"
    by (simp add: to_number_exact number_mul_def)
  note third = ensureToken_refresh_schedule [OF cred1,
      where b = "''https://api.1claw.xyz/''" and v = "''vault-1''" and ?e0.0 = ?e1
        and e = ?late and res = ?r2 and d = ?d2 and ?e2.0 = ?early and t = 0]
  have run3: "ensureToken ?c1 ?late
     = (Inr (),
        \<lparr>baseUrl = ''https://api.1claw.xyz'', token = ''tok2'', vaultId = ''vault-1'',
         agentCredentials = Some (''agent-1'', ''ocv_key''), tokenExpiresAt = Finite 7141020\<rparr>,
        [AgentTokenPost ''https://api.1claw.xyz/v1/auth/agent-token'' ''agent-1'' ''ocv_key''])"
    using third ok2 late by (simp add: x2)
  note fourth = ensureToken_refresh_schedule [OF cred1,
      where b = "''https://api.1claw.xyz/''" and v = "''vault-1''" and ?e0.0 = ?e1
        and e = ?huge and res = ?r3 and d = ?d3 and ?e2.0 = ?early and t = 0]
  have run4: "ensureToken ?c1 ?huge
     = (Inr (),
        \<lparr>baseUrl = ''https://api.1claw.xyz'', token = ''tok3'', vaultId = ''vault-1'',
         agentCredentials = Some (''agent-1'', ''ocv_key''),
         tokenExpiresAt = Finite 9007199254741012\<rparr>,
        [AgentTokenPost ''https://api.1claw.xyz/v1/auth/agent-token'' ''agent-1'' ''ocv_key''])"
    using fourth ok3 late by (simp add: expiry_rounds_to_even)
  from run1 run2 run3 run4 show ?thesis by blast
qed

text \<open>
  Claim C2. A client built from a static token (no agent credentials) returns from
  \<open>ensureToken\<close> with no call of \<open>fetch\<close> and unchanged, its token is the configured string,
  and any number of token resolutions in a row all give the header \<open>Bearer\<close> followed by that
  exact token, issue no call at all and leave the client as it was.
\<close>

theorem static_token_never_exchanges:
  "ensureToken (new_OneClawClient (ClientConfig b t v)) e
     = (Inr (), new_OneClawClient (ClientConfig b t v), [])
   \<and> token (new_OneClawClient (ClientConfig b t v)) = t
   \<and> headers_seq (new_OneClawClient (ClientConfig b t v)) es
     = (replicate (length es) (Inr [(''Authorization'', ''Bearer '' @ t),
                                    (''Content-Type'', ''application/json'')]),
        new_OneClawClient (ClientConfig b t v), [])"
proof -
  let ?c = "new_OneClawClient (ClientConfig b t v)"
  have nc: "agentCredentials ?c = None" by simp
  have tk: "token ?c = t" by simp
  show ?thesis
    using ensureToken_static [OF nc, of e] headers_seq_static [OF nc, of es] tk by simp
qed

text \<open>
  Claim C10. When \<open>ensureToken\<close> issues the exchange and the answer is a response that is not
  2xx, it throws a \<open>OneClawApiError\<close> with the status of that response and the detail
  "Agent auth failed: " followed by the envelope's detail (or "HTTP" and the status when
  there is none), and the client is left as it was: the cached token and the cached expiry
  are those from before the call.
\<close>

theorem exchange_failure_keeps_state:
  assumes "exchange e = Responded res" and "\<not> ok res"
    and "ensureToken c e = (r, c', calls)" and "calls \<noteq> []"
  shows "(\<exists>d. r = Inl (OneClawApiError (status res) (''Agent auth failed: '' @ d)))
         \<and> r = Inl (OneClawApiError (status res)
                   (''Agent auth failed: '' @
                    (case error_json res of
                       None \<Rightarrow> ''HTTP '' @ decimal (status res)
                     | Some body \<Rightarrow>
                         if truthy (body_detail body) then the (body_detail body)
                         else ''HTTP '' @ decimal (status res))))
         \<and> token c' = token c \<and> tokenExpiresAt c' = tokenExpiresAt c \<and> c' = c"
  using ensureToken_failure [OF assms] by simp

theorem exchange_failure_keeps_state_witness:
  "ensureToken
     \<lparr>baseUrl = ''https://api.1claw.xyz'', token = ''tok1'', vaultId = ''vault-1'',
      agentCredentials = Some (''agent-1'', ''ocv_key''), tokenExpiresAt = Finite 3601010\<rparr>
     \<lparr>now_check = 3600000,
      exchange = Responded \<lparr>status = 401,
                   error_json = Some \<lparr>body_type = None, body_detail = Some ''key revoked''\<rparr>,
                   data_json = None\<rparr>,
      now_store = 3600005\<rparr>
   = (Inl (OneClawApiError 401 ''Agent auth failed: key revoked''),
      \<lparr>baseUrl = ''https://api.1claw.xyz'', token = ''tok1'', vaultId = ''vault-1'',
       agentCredentials = Some (''agent-1'', ''ocv_key''), tokenExpiresAt = Finite 3601010\<rparr>,
      [AgentTokenPost ''https://api.1claw.xyz/v1/auth/agent-token'' ''agent-1'' ''ocv_key''])
   \<and> ensureToken
     \<lparr>baseUrl = ''https://api.1claw.xyz'', token = ''tok1'', vaultId = ''vault-1'',
      agentCredentials = Some (''agent-1'', ''ocv_key''), tokenExpiresAt = Finite 3601010\<rparr>
     \<lparr>now_check = 3600000,
      exchange = Responded \<lparr>status = 401, error_json = None, data_json = None\<rparr>,
      now_store = 3600005\<rparr>
   = (Inl (OneClawApiError 401 ''Agent auth failed: HTTP 401''),
      \<lparr>baseUrl = ''https://api.1claw.xyz'', token = ''tok1'', vaultId = ''vault-1'',
       agentCredentials = Some (''agent-1'', ''ocv_key''), tokenExpiresAt = Finite 3601010\<rparr>,
      [AgentTokenPost ''https://api.1claw.xyz/v1/auth/agent-token'' ''agent-1'' ''ocv_key''])
   \<and> ensureToken (new_OneClawClient (AgentCredentials ''https://api.1claw.xyz'' ''agent-1'' ''ocv_key'' ''vault-1''))
     \<lparr>now_check = 1000,
      exchange = Responded \<lparr>status = 401,
                   error_json = Some \<lparr>body_type = None, body_detail = Some ''bad key''\<rparr>,
                   data_json = None\<rparr>,
      now_store = 1005\<rparr>
   = (Inl (OneClawApiError 401 ''Agent auth failed: bad key''),
      new_OneClawClient (AgentCredentials ''https://api.1claw.xyz'' ''agent-1'' ''ocv_key'' ''vault-1''),
      [AgentTokenPost ''https://api.1claw.xyz/v1/auth/agent-token'' ''agent-1'' ''ocv_key''])"
proof -
  let ?c1 = "\<lparr>baseUrl = ''https://api.1claw.xyz'', token = ''tok1'', vaultId = ''vault-1'',
      agentCredentials = Some (''agent-1'', ''ocv_key''), tokenExpiresAt = Finite 3601010\<rparr>"
  let ?c0 = "new_OneClawClient (AgentCredentials ''https://api.1claw.xyz'' ''agent-1'' ''ocv_key'' ''vault-1'')"
  let ?call = "AgentTokenPost ''https://api.1claw.xyz/v1/auth/agent-token'' ''agent-1'' ''ocv_key''"
  let ?ra = "\<lparr>status = 401,
                   error_json = Some \<lparr>body_type = None, body_detail = Some ''key revoked''\<rparr>,
                   data_json = None :: token_data option\<rparr>"
  let ?rb = "\<lparr>status = 401, error_json = None, data_json = None :: token_data option\<rparr>"
  let ?rc = "\<lparr>status = 401,
                   error_json = Some \<lparr>body_type = None, body_detail = Some ''bad key''\<rparr>,
                   data_json = None :: token_data option\<rparr>"
  let ?ea = "\<lparr>now_check = 3600000, exchange = Responded ?ra, now_store = 3600005\<rparr>"
  let ?eb = "\<lparr>now_check = 3600000, exchange = Responded ?rb, now_store = 3600005\<rparr>"
  let ?ec = "\<lparr>now_check = 1000, exchange = Responded ?rc, now_store = 1005\<rparr>"
  have stale: "\<not> number_less (to_number 3600000) (number_sub (Finite 3601010) (Finite 60000))"
    by (simp add: to_number_exact number_sub_def)
  have nok: "\<not> ok ?ra" "\<not> ok ?rb" "\<not> ok ?rc" by (simp_all add: ok_def)
  have a: "ensureToken ?c1 ?ea
      = (Inl (OneClawApiError 401 ''Agent auth failed: key revoked''), ?c1, [?call])"
  proof -
    obtain r c' calls where run: "ensureToken ?c1 ?ea = (r, c', calls)"
      by (cases "ensureToken ?c1 ?ea") auto
    have calls: "calls = [?call]"
      using run stale by (simp add: ensureToken_def Let_def ok_def REFRESH_BUFFER_MS_def)
    then have ne: "calls \<noteq> []" by simp
    have ex: "exchange ?ea = Responded ?ra" by simp
    from exchange_failure_keeps_state [OF ex nok(1) run ne]
    have "r = Inl (OneClawApiError 401 ''Agent auth failed: key revoked'')" and "c' = ?c1"
      by (simp_all add: truthy_def)
    with run calls show ?thesis by simp
  qed
  have b: "ensureToken ?c1 ?eb
      = (Inl (OneClawApiError 401 ''Agent auth failed: HTTP 401''), ?c1, [?call])"
  proof -
    obtain r c' calls where run: "ensureToken ?c1 ?eb = (r, c', calls)"
      by (cases "ensureToken ?c1 ?eb") auto
    have calls: "calls = [?call]"
      using run stale by (simp add: ensureToken_def Let_def ok_def REFRESH_BUFFER_MS_def)
    then have ne: "calls \<noteq> []" by simp
    have ex: "exchange ?eb = Responded ?rb" by simp
    from exchange_failure_keeps_state [OF ex nok(2) run ne]
    have "r = Inl (OneClawApiError 401 ''Agent auth failed: HTTP 401'')" and "c' = ?c1"
      by (simp_all add: decimal_401)
    with run calls show ?thesis by simp
  qed
  have c: "ensureToken ?c0 ?ec
      = (Inl (OneClawApiError 401 ''Agent auth failed: bad key''), ?c0, [?call])"
  proof -
    obtain r c' calls where run: "ensureToken ?c0 ?ec = (r, c', calls)"
      by (cases "ensureToken ?c0 ?ec") auto
    have calls: "calls = [?call]"
      using run by (simp add: ensureToken_def Let_def ok_def strip_trailing_slash_def)
    then have ne: "calls \<noteq> []" by simp
    have ex: "exchange ?ec = Responded ?rc" by simp
    from exchange_failure_keeps_state [OF ex nok(3) run ne]
    have "r = Inl (OneClawApiError 401 ''Agent auth failed: bad key'')" and "c' = ?c0"
      by (simp_all add: truthy_def)
    with run calls show ?thesis by simp
  qed
  from a b c show ?thesis by blast
qed

section \<open>The request executor\<close>

text \<open>
  Claim C3, as stated, fails for the token exchange: a 402 answer to the exchange POST is
  reported by \<open>request\<close> as "Agent auth failed: ..." with the body's own detail, not as the
  billing message.
\<close>

theorem quota_402_exchange_counterexample:
  "fst (request
         (new_OneClawClient (AgentCredentials ''https://api.1claw.xyz'' ''agent-1'' ''ocv_key'' ''vault-1''))
         \<lparr>auth_env = \<lparr>now_check = 1000,
                      exchange = Responded \<lparr>status = 402,
                         error_json = Some \<lparr>body_type = None, body_detail = Some ''Payment required''\<rparr>,
                         data_json = None\<rparr>,
                      now_store = 1010\<rparr>,
          reply = (Rejected :: unit fetch_result)\<rparr>
         ''https://api.1claw.xyz/v1/vaults'' \<lparr>init_method = None, init_body = None\<rparr>)
     = Inl (OneClawApiError 402 ''Agent auth failed: Payment required'')
   \<and> fst (request
         (new_OneClawClient (AgentCredentials ''https://api.1claw.xyz'' ''agent-1'' ''ocv_key'' ''vault-1''))
         \<lparr>auth_env = \<lparr>now_check = 1000,
                      exchange = Responded \<lparr>status = 402,
                         error_json = Some \<lparr>body_type = None, body_detail = Some ''Payment required''\<rparr>,
                         data_json = None\<rparr>,
                      now_store = 1010\<rparr>,
          reply = (Rejected :: unit fetch_result)\<rparr>
         ''https://api.1claw.xyz/v1/vaults'' \<lparr>init_method = None, init_body = None\<rparr>)
     \<noteq> Inl (OneClawApiError 402 QUOTA_MESSAGE)"
  by (simp add: request_def headers_def ensureToken_def Let_def ok_def truthy_def
        QUOTA_MESSAGE_def)

text \<open>
  Claim C3, amended. A response with status 402 to the \<open>fetch\<close> of \<open>request\<close> itself (after
  token resolution has succeeded) gives the error \<open>OneClawApiError 402\<close> with the fixed
  billing-upgrade message, whatever the body, URL or \<open>init\<close>. A 402 answer to the exchange POST
  of \<open>ensureToken\<close> is not rewritten: \<open>ensureToken\<close>, and \<open>request\<close> with it, throws
  \<open>OneClawApiError 402\<close> with the detail "Agent auth failed: " followed by the envelope's
  detail, or by "HTTP 402" when the body does not parse or has no detail.
\<close>

theorem quota_message_on_402:
  "(headers c (auth_env e) = (Inr hdrs, c', calls) \<and> reply e = Responded res \<and> status res = 402
      \<longrightarrow> request c e url init
            = (Inl (OneClawApiError 402 QUOTA_MESSAGE), c', calls @ [ApiFetch url init hdrs]))
   \<and> (exchange te = Responded xres \<and> status xres = 402 \<and> snd (snd (ensureToken c te)) \<noteq> []
      \<longrightarrow> fst (ensureToken c te)
            = Inl (OneClawApiError 402
                    (''Agent auth failed: '' @
                     (case error_json xres of
                        None \<Rightarrow> ''HTTP 402''
                      | Some body \<Rightarrow>
                          if truthy (body_detail body) then the (body_detail body)
                          else ''HTTP 402''))))
   \<and> (exchange (auth_env e) = Responded xres \<and> status xres = 402
        \<and> snd (snd (ensureToken c (auth_env e))) \<noteq> []
      \<longrightarrow> fst (request c e url init)
            = Inl (OneClawApiError 402
                    (''Agent auth failed: '' @
                     (case error_json xres of
                        None \<Rightarrow> ''HTTP 402''
                      | Some body \<Rightarrow>
                          if truthy (body_detail body) then the (body_detail body)
                          else ''HTTP 402''))))"
proof (intro conjI impI)
  assume "headers c (auth_env e) = (Inr hdrs, c', calls) \<and> reply e = Responded res
    \<and> status res = 402"
  then show "request c e url init
            = (Inl (OneClawApiError 402 QUOTA_MESSAGE), c', calls @ [ApiFetch url init hdrs])"
    by (simp add: request_def Let_def ok_def)
next
  assume a: "exchange te = Responded xres \<and> status xres = 402
    \<and> snd (snd (ensureToken c te)) \<noteq> []"
  obtain r c1 cs where run: "ensureToken c te = (r, c1, cs)"
    by (cases "ensureToken c te") auto
  from a have nok: "\<not> ok xres" by (simp add: ok_def)
  from a run have ne: "cs \<noteq> []" by simp
  from a have ex: "exchange te = Responded xres" and st: "status xres = 402" by simp_all
  from ensureToken_failure [OF ex nok run ne] run
  show "fst (ensureToken c te)
            = Inl (OneClawApiError 402
                    (''Agent auth failed: '' @
                     (case error_json xres of
                        None \<Rightarrow> ''HTTP 402''
                      | Some body \<Rightarrow>
                          if truthy (body_detail body) then the (body_detail body)
                          else ''HTTP 402'')))"
    by (simp add: st decimal_402 split: option.splits)
next
  assume a: "exchange (auth_env e) = Responded xres \<and> status xres = 402
        \<and> snd (snd (ensureToken c (auth_env e))) \<noteq> []"
  obtain r c1 cs where run: "ensureToken c (auth_env e) = (r, c1, cs)"
    by (cases "ensureToken c (auth_env e)") auto
  from a have nok: "\<not> ok xres" by (simp add: ok_def)
  from a run have ne: "cs \<noteq> []" by simp
  from a have ex: "exchange (auth_env e) = Responded xres" and st: "status xres = 402"
    by simp_all
  from ensureToken_failure [OF ex nok run ne] run
  show "fst (request c e url init)
            = Inl (OneClawApiError 402
                    (''Agent auth failed: '' @
                     (case error_json xres of
                        None \<Rightarrow> ''HTTP 402''
                      | Some body \<Rightarrow>
                          if truthy (body_detail body) then the (body_detail body)
                          else ''HTTP 402'')))"
    by (simp add: st decimal_402 request_def headers_def split: option.splits)
qed

theorem quota_message_on_402_witness:
  "request (new_OneClawClient (ClientConfig ''https://api.1claw.xyz'' ''jwt'' ''vault-1''))
     \<lparr>auth_env = \<lparr>now_check = 1000, exchange = Rejected, now_store = 1000\<rparr>,
      reply = Responded \<lparr>status = 402,
                error_json = Some \<lparr>body_type = Some ''payment_required'',
                                   body_detail = Some ''Payment required''\<rparr>,
                data_json = (None :: unit option)\<rparr>\<rparr>
     ''https://api.1claw.xyz/v1/vaults'' \<lparr>init_method = None, init_body = None\<rparr>
   = (Inl (OneClawApiError 402 QUOTA_MESSAGE),
      new_OneClawClient (ClientConfig ''https://api.1claw.xyz'' ''jwt'' ''vault-1''),
      [ApiFetch ''https://api.1claw.xyz/v1/vaults'' \<lparr>init_method = None, init_body = None\<rparr>
         [(''Authorization'', ''Bearer jwt''), (''Content-Type'', ''application/json'')]])
   \<and> fst (ensureToken
            (new_OneClawClient (AgentCredentials ''https://api.1claw.xyz'' ''agent-1'' ''ocv_key'' ''vault-1''))
            \<lparr>now_check = 1000,
             exchange = Responded \<lparr>status = 402, error_json = None, data_json = None\<rparr>,
             now_store = 1010\<rparr>)
       = Inl (OneClawApiError 402 ''Agent auth failed: HTTP 402'')
   \<and> fst (request
            (new_OneClawClient (AgentCredentials ''https://api.1claw.xyz'' ''agent-1'' ''ocv_key'' ''vault-1''))
            \<lparr>auth_env = \<lparr>now_check = 1000,
                exchange = Responded \<lparr>status = 402,
                   error_json = Some \<lparr>body_type = None, body_detail = Some ''Payment required''\<rparr>,
                   data_json = None\<rparr>,
                now_store = 1010\<rparr>,
             reply = (Rejected :: unit fetch_result)\<rparr>
            ''https://api.1claw.xyz/v1/vaults'' \<lparr>init_method = None, init_body = None\<rparr>)
       = Inl (OneClawApiError 402 ''Agent auth failed: Payment required'')"
proof -
  let ?c = "new_OneClawClient (ClientConfig ''https://api.1claw.xyz'' ''jwt'' ''vault-1'')"
  let ?a = "new_OneClawClient (AgentCredentials ''https://api.1claw.xyz'' ''agent-1'' ''ocv_key'' ''vault-1'')"
  let ?res = "\<lparr>status = 402,
                error_json = Some \<lparr>body_type = Some ''payment_required'',
                                   body_detail = Some ''Payment required''\<rparr>,
                data_json = (None :: unit option)\<rparr>"
  let ?e = "\<lparr>auth_env = \<lparr>now_check = 1000, exchange = Rejected, now_store = 1000\<rparr>,
            reply = Responded ?res\<rparr>"
  let ?xres = "\<lparr>status = 402, error_json = None, data_json = None :: token_data option\<rparr>"
  let ?te = "\<lparr>now_check = 1000, exchange = Responded ?xres, now_store = 1010\<rparr>"
  let ?yres = "\<lparr>status = 402,
                   error_json = Some \<lparr>body_type = None, body_detail = Some ''Payment required''\<rparr>,
                   data_json = None :: token_data option\<rparr>"
  let ?ye = "\<lparr>auth_env = \<lparr>now_check = 1000, exchange = Responded ?yres, now_store = 1010\<rparr>,
             reply = (Rejected :: unit fetch_result)\<rparr>"
  let ?init = "\<lparr>init_method = None, init_body = None\<rparr>"
  have issued: "snd (snd (ensureToken ?a ?te)) \<noteq> []"
    by (simp add: ensureToken_def Let_def ok_def)
  have yissued: "snd (snd (ensureToken ?a (auth_env ?ye))) \<noteq> []"
    by (simp add: ensureToken_def Let_def ok_def)
  have first: "request ?c ?e ''https://api.1claw.xyz/v1/vaults'' ?init
     = (Inl (OneClawApiError 402 QUOTA_MESSAGE), ?c,
        [ApiFetch ''https://api.1claw.xyz/v1/vaults'' ?init
           [(''Authorization'', ''Bearer jwt''), (''Content-Type'', ''application/json'')]])"
    using quota_message_on_402 [where c = ?c and e = ?e and res = ?res and c' = ?c
        and calls = "[]" and url = "''https://api.1claw.xyz/v1/vaults''"
        and init = ?init
        and hdrs = "[(''Authorization'', ''Bearer jwt''), (''Content-Type'', ''application/json'')]",
        THEN conjunct1]
      headers_static_client [of "''https://api.1claw.xyz''" "''jwt''" "''vault-1''"]
    by simp
  have second: "fst (ensureToken ?a ?te)
          = Inl (OneClawApiError 402 ''Agent auth failed: HTTP 402'')"
    using quota_message_on_402 [where c = ?a and te = ?te and xres = ?xres,
        THEN conjunct2, THEN conjunct1] issued
    by simp
  have third: "fst (request ?a ?ye ''https://api.1claw.xyz/v1/vaults'' ?init)
          = Inl (OneClawApiError 402 ''Agent auth failed: Payment required'')"
    using quota_message_on_402 [where c = ?a and e = ?ye and xres = ?yres
        and url = "''https://api.1claw.xyz/v1/vaults''" and init = ?init,
        THEN conjunct2, THEN conjunct2] yissued
    by (simp add: truthy_def)
  from first second third show ?thesis by blast
qed

text \<open>
  Claim C4. For a response with status 403 to the \<open>fetch\<close> of \<open>request\<close>: when the envelope's
  type is "resource_limit_exceeded", the detail of the error is "Resource limit reached: ",
  the envelope's detail (or "HTTP 403" when it has none), and the upgrade sentence ending in the
  billing URL, so it contains both the envelope's detail text and the billing URL; when the
  envelope's type is anything else, or the body has no envelope, the detail is the envelope's
  detail, or "HTTP 403" when it has none, unmodified.
\<close>

theorem resource_limit_detail:
  assumes hd: "headers c (auth_env e) = (Inr hdrs, c', calls)"
    and rp: "reply e = Responded res"
    and st: "status res = 403"
  shows
    "(\<forall>body. error_json res = Some body \<and> body_type body = Some ''resource_limit_exceeded'' \<longrightarrow>
        (\<exists>detail. fst (request c e url init) = Inl (OneClawApiError 403 detail)
           \<and> detail = ''Resource limit reached: ''
                @ (if truthy (body_detail body) then the (body_detail body) else ''HTTP 403'')
                @ ''. Ask your human to upgrade the plan at '' @ BILLING_URL
           \<and> sublist BILLING_URL detail
           \<and> (\<forall>d. body_detail body = Some d \<longrightarrow> sublist d detail)))
     \<and> (\<forall>body. error_json res = Some body \<and> body_type body \<noteq> Some ''resource_limit_exceeded'' \<longrightarrow>
          fst (request c e url init)
            = Inl (OneClawApiError 403
                    (if truthy (body_detail body) then the (body_detail body) else ''HTTP 403'')))
     \<and> (error_json res = None \<longrightarrow>
          fst (request c e url init) = Inl (OneClawApiError 403 ''HTTP 403''))"
proof (intro conjI allI impI)
  fix body
  assume b: "error_json res = Some body \<and> body_type body = Some ''resource_limit_exceeded''"
  let ?d = "if truthy (body_detail body) then the (body_detail body) else ''HTTP 403''"
  let ?detail = "''Resource limit reached: '' @ ?d
       @ ''. Ask your human to upgrade the plan at '' @ BILLING_URL"
  have run: "fst (request c e url init) = Inl (OneClawApiError 403 ?detail)"
    using hd rp st b
    by (simp add: request_def Let_def ok_def decimal_403 truthy_def BILLING_URL_def)
  have url: "sublist BILLING_URL ?detail"
    using sublist_end [of BILLING_URL "''Resource limit reached: '' @ ?d"
        "''. Ask your human to upgrade the plan at ''"]
    by simp
  have orig: "\<forall>d. body_detail body = Some d \<longrightarrow> sublist d ?detail"
  proof (intro allI impI)
    fix d assume d: "body_detail body = Some d"
    show "sublist d ?detail"
    proof (cases "d = []")
      case True
      then show ?thesis by simp
    next
      case False
      with d have "?d = d" by (simp add: truthy_def)
      then show ?thesis
        using sublist_mid [of d "''Resource limit reached: ''"
            "''. Ask your human to upgrade the plan at '' @ BILLING_URL"]
        by simp
    qed
  qed
  from run url orig
  show "\<exists>detail. fst (request c e url init) = Inl (OneClawApiError 403 detail)
           \<and> detail = ?detail
           \<and> sublist BILLING_URL detail
           \<and> (\<forall>d. body_detail body = Some d \<longrightarrow> sublist d detail)"
    by blast
next
  fix body
  assume b: "error_json res = Some body \<and> body_type body \<noteq> Some ''resource_limit_exceeded''"
  have "(if truthy (body_type body) then the (body_type body) else [])
          \<noteq> ''resource_limit_exceeded''"
    using b by (cases "body_type body") (auto simp: truthy_def)
  then show "fst (request c e url init)
            = Inl (OneClawApiError 403
                    (if truthy (body_detail body) then the (body_detail body) else ''HTTP 403''))"
    using hd rp st b
    by (simp add: request_def Let_def ok_def decimal_403)
next
  assume "error_json res = None"
  then show "fst (request c e url init) = Inl (OneClawApiError 403 ''HTTP 403'')"
    using hd rp st
    by (simp add: request_def Let_def ok_def decimal_403)
qed

theorem resource_limit_detail_witness:
  "fst (request (new_OneClawClient (ClientConfig ''https://api.1claw.xyz'' ''jwt'' ''vault-1''))
     \<lparr>auth_env = \<lparr>now_check = 1000, exchange = Rejected, now_store = 1000\<rparr>,
      reply = Responded \<lparr>status = 403,
                error_json = Some \<lparr>body_type = Some ''resource_limit_exceeded'',
                                   body_detail = Some ''vault limit is 3''\<rparr>,
                data_json = (None :: unit option)\<rparr>\<rparr>
     ''https://api.1claw.xyz/v1/vaults'' \<lparr>init_method = Some ''POST'', init_body = Some ''{}''\<rparr>)
   = Inl (OneClawApiError 403
       ''Resource limit reached: vault limit is 3. Ask your human to upgrade the plan at https://1claw.xyz/settings/billing'')
   \<and> fst (request (new_OneClawClient (ClientConfig ''https://api.1claw.xyz'' ''jwt'' ''vault-1''))
     \<lparr>auth_env = \<lparr>now_check = 1000, exchange = Rejected, now_store = 1000\<rparr>,
      reply = Responded \<lparr>status = 403,
                error_json = Some \<lparr>body_type = Some ''forbidden'',
                                   body_detail = Some ''no policy grants access''\<rparr>,
                data_json = (None :: unit option)\<rparr>\<rparr>
     ''https://api.1claw.xyz/v1/vaults'' \<lparr>init_method = Some ''POST'', init_body = Some ''{}''\<rparr>)
   = Inl (OneClawApiError 403 ''no policy grants access'')"
proof -
  let ?c = "new_OneClawClient (ClientConfig ''https://api.1claw.xyz'' ''jwt'' ''vault-1'')"
  let ?te = "\<lparr>now_check = 1000, exchange = Rejected, now_store = 1000\<rparr>"
  let ?b1 = "\<lparr>body_type = Some ''resource_limit_exceeded'', body_detail = Some ''vault limit is 3''\<rparr>"
  let ?b2 = "\<lparr>body_type = Some ''forbidden'', body_detail = Some ''no policy grants access''\<rparr>"
  let ?r1 = "\<lparr>status = 403, error_json = Some ?b1, data_json = (None :: unit option)\<rparr>"
  let ?r2 = "\<lparr>status = 403, error_json = Some ?b2, data_json = (None :: unit option)\<rparr>"
  let ?e1 = "\<lparr>auth_env = ?te, reply = Responded ?r1\<rparr>"
  let ?e2 = "\<lparr>auth_env = ?te, reply = Responded ?r2\<rparr>"
  let ?h = "[(''Authorization'', ''Bearer jwt''), (''Content-Type'', ''application/json'')]"
  have hd1: "headers ?c (auth_env ?e1) = (Inr ?h, ?c, [])"
    and hd2: "headers ?c (auth_env ?e2) = (Inr ?h, ?c, [])"
    using headers_static_client [of "''https://api.1claw.xyz''" "''jwt''" "''vault-1''" ?te]
    by simp_all
  have rp1: "reply ?e1 = Responded ?r1" and rp2: "reply ?e2 = Responded ?r2" by simp_all
  have st1: "status ?r1 = 403" and st2: "status ?r2 = 403" by simp_all
  note t1 = resource_limit_detail [OF hd1 rp1 st1,
      of "''https://api.1claw.xyz/v1/vaults''" "\<lparr>init_method = Some ''POST'', init_body = Some ''{}''\<rparr>"]
  note t2 = resource_limit_detail [OF hd2 rp2 st2,
      of "''https://api.1claw.xyz/v1/vaults''" "\<lparr>init_method = Some ''POST'', init_body = Some ''{}''\<rparr>"]
  from t1 have a: "\<forall>body. error_json ?r1 = Some body \<and> body_type body = Some ''resource_limit_exceeded'' \<longrightarrow>
        (\<exists>detail. fst (request ?c ?e1 ''https://api.1claw.xyz/v1/vaults'' \<lparr>init_method = Some ''POST'', init_body = Some ''{}''\<rparr>) = Inl (OneClawApiError 403 detail)
           \<and> detail = ''Resource limit reached: ''
                @ (if truthy (body_detail body) then the (body_detail body) else ''HTTP 403'')
                @ ''. Ask your human to upgrade the plan at '' @ BILLING_URL
           \<and> sublist BILLING_URL detail
           \<and> (\<forall>d. body_detail body = Some d \<longrightarrow> sublist d detail))"
    by (rule conjunct1)
  from a [rule_format, of ?b1]
  have first: "fst (request ?c ?e1 ''https://api.1claw.xyz/v1/vaults'' \<lparr>init_method = Some ''POST'', init_body = Some ''{}''\<rparr>)
     = Inl (OneClawApiError 403
       ''Resource limit reached: vault limit is 3. Ask your human to upgrade the plan at https://1claw.xyz/settings/billing'')"
    by (auto simp: truthy_def BILLING_URL_def)
  from t2 have b: "\<forall>body. error_json ?r2 = Some body \<and> body_type body \<noteq> Some ''resource_limit_exceeded'' \<longrightarrow>
          fst (request ?c ?e2 ''https://api.1claw.xyz/v1/vaults'' \<lparr>init_method = Some ''POST'', init_body = Some ''{}''\<rparr>)
            = Inl (OneClawApiError 403
                    (if truthy (body_detail body) then the (body_detail body) else ''HTTP 403''))"
    by blast
  from b [rule_format, of ?b2]
  have second: "fst (request ?c ?e2 ''https://api.1claw.xyz/v1/vaults'' \<lparr>init_method = Some ''POST'', init_body = Some ''{}''\<rparr>)
     = Inl (OneClawApiError 403 ''no policy grants access'')"
    by (simp add: truthy_def)
  from first second show ?thesis by blast
qed

text \<open>
  Claim C5. Every response to the \<open>fetch\<close> of \<open>request\<close> whose status is outside 200..299
  gives a \<open>OneClawApiError\<close> whose status is the status of that response, also for 402 and for
  the 403 resource-limit case; the same holds for a failed answer to the exchange POST.
\<close>

theorem error_keeps_status:
  "(headers c (auth_env e) = (Inr hdrs, c', calls) \<and> reply e = Responded res \<and> \<not> ok res
      \<longrightarrow> (\<exists>d. fst (request c e url init) = Inl (OneClawApiError (status res) d)))
   \<and> (exchange (auth_env e) = Responded xres \<and> \<not> ok xres
        \<and> snd (snd (ensureToken c (auth_env e))) \<noteq> []
      \<longrightarrow> (\<exists>d. fst (request c e url init) = Inl (OneClawApiError (status xres) d)))"
  by (auto simp: request_def headers_def ensureToken_def Let_def split: option.splits)

theorem error_keeps_status_witness:
  "(\<exists>d. fst (request (new_OneClawClient (ClientConfig ''https://api.1claw.xyz'' ''jwt'' ''vault-1''))
     \<lparr>auth_env = \<lparr>now_check = 1000, exchange = Rejected, now_store = 1000\<rparr>,
      reply = Responded \<lparr>status = 403,
                error_json = Some \<lparr>body_type = Some ''resource_limit_exceeded'',
                                   body_detail = Some ''vault limit is 3''\<rparr>,
                data_json = (None :: unit option)\<rparr>\<rparr>
     ''https://api.1claw.xyz/v1/vaults'' \<lparr>init_method = None, init_body = None\<rparr>)
   = Inl (OneClawApiError 403 d))
   \<and> (\<exists>d. fst (request
         (new_OneClawClient (AgentCredentials ''https://api.1claw.xyz'' ''agent-1'' ''ocv_key'' ''vault-1''))
         \<lparr>auth_env = \<lparr>now_check = 1000,
                      exchange = Responded \<lparr>status = 401, error_json = None, data_json = None\<rparr>,
                      now_store = 1010\<rparr>,
          reply = (Rejected :: unit fetch_result)\<rparr>
         ''https://api.1claw.xyz/v1/vaults'' \<lparr>init_method = None, init_body = None\<rparr>)
     = Inl (OneClawApiError 401 d))"
proof -
  let ?c = "new_OneClawClient (ClientConfig ''https://api.1claw.xyz'' ''jwt'' ''vault-1'')"
  let ?a = "new_OneClawClient (AgentCredentials ''https://api.1claw.xyz'' ''agent-1'' ''ocv_key'' ''vault-1'')"
  let ?te = "\<lparr>now_check = 1000, exchange = Rejected, now_store = 1000\<rparr>"
  let ?r1 = "\<lparr>status = 403,
                error_json = Some \<lparr>body_type = Some ''resource_limit_exceeded'',
                                   body_detail = Some ''vault limit is 3''\<rparr>,
                data_json = (None :: unit option)\<rparr>"
  let ?e1 = "\<lparr>auth_env = ?te, reply = Responded ?r1\<rparr>"
  let ?xres = "\<lparr>status = 401, error_json = None, data_json = None :: token_data option\<rparr>"
  let ?e2 = "\<lparr>auth_env = \<lparr>now_check = 1000, exchange = Responded ?xres, now_store = 1010\<rparr>,
          reply = (Rejected :: unit fetch_result)\<rparr>"
  let ?h = "[(''Authorization'', ''Bearer jwt''), (''Content-Type'', ''application/json'')]"
  let ?init = "\<lparr>init_method = None, init_body = None\<rparr>"
  have hd1: "headers ?c (auth_env ?e1) = (Inr ?h, ?c, [])"
    using headers_static_client [of "''https://api.1claw.xyz''" "''jwt''" "''vault-1''" ?te]
    by simp
  have nok1: "\<not> ok ?r1" and nok2: "\<not> ok ?xres" by (simp_all add: ok_def)
  have issued: "snd (snd (ensureToken ?a (auth_env ?e2))) \<noteq> []"
    by (simp add: ensureToken_def Let_def ok_def)
  have first: "\<exists>d. fst (request ?c ?e1 ''https://api.1claw.xyz/v1/vaults'' ?init)
      = Inl (OneClawApiError 403 d)"
    using error_keeps_status [where c = ?c and e = ?e1 and hdrs = ?h and c' = ?c
        and calls = "[]" and res = ?r1 and url = "''https://api.1claw.xyz/v1/vaults''"
        and init = ?init] hd1 nok1
    by simp
  have second: "\<exists>d. fst (request ?a ?e2 ''https://api.1claw.xyz/v1/vaults'' ?init)
      = Inl (OneClawApiError 401 d)"
    using error_keeps_status [where c = ?a and e = ?e2 and xres = ?xres
        and url = "''https://api.1claw.xyz/v1/vaults''" and init = ?init, THEN conjunct2]
      nok2 issued
    by simp
  from first second show ?thesis by blast
qed

text \<open>
  Claim C7. For a response to the \<open>fetch\<close> of \<open>request\<close> with status outside 200..299 and
  other than 402: when the body does not parse, or parses to an envelope without a detail (and
  the 403 resource-limit case does not apply), the detail of the error is "HTTP " followed by
  the decimal status.
\<close>

theorem fallback_detail:
  assumes hd: "headers c (auth_env e) = (Inr hdrs, c', calls)"
    and rp: "reply e = Responded res"
    and nok: "\<not> ok res"
    and st: "status res \<noteq> 402"
  shows
    "(error_json res = None \<longrightarrow>
        fst (request c e url init)
          = Inl (OneClawApiError (status res) (''HTTP '' @ decimal (status res))))
     \<and> (\<forall>body. error_json res = Some body \<and> body_detail body = None
            \<and> \<not> (status res = 403 \<and> body_type body = Some ''resource_limit_exceeded'') \<longrightarrow>
          fst (request c e url init)
            = Inl (OneClawApiError (status res) (''HTTP '' @ decimal (status res))))"
proof (intro conjI allI impI)
  assume "error_json res = None"
  then show "fst (request c e url init)
          = Inl (OneClawApiError (status res) (''HTTP '' @ decimal (status res)))"
    using hd rp nok st by (simp add: request_def Let_def)
next
  fix body
  assume b: "error_json res = Some body \<and> body_detail body = None
            \<and> \<not> (status res = 403 \<and> body_type body = Some ''resource_limit_exceeded'')"
  have "status res = 403 \<Longrightarrow>
        (if truthy (body_type body) then the (body_type body) else [])
          \<noteq> ''resource_limit_exceeded''"
    using b by (cases "body_type body") (auto simp: truthy_def)
  then show "fst (request c e url init)
            = Inl (OneClawApiError (status res) (''HTTP '' @ decimal (status res)))"
    using hd rp nok st b by (auto simp: request_def Let_def truthy_def)
qed

theorem fallback_detail_witness:
  "fst (request (new_OneClawClient (ClientConfig ''https://api.1claw.xyz'' ''jwt'' ''vault-1''))
     \<lparr>auth_env = \<lparr>now_check = 1000, exchange = Rejected, now_store = 1000\<rparr>,
      reply = Responded \<lparr>status = 500, error_json = None, data_json = (None :: unit option)\<rparr>\<rparr>
     ''https://api.1claw.xyz/v1/vaults'' \<lparr>init_method = None, init_body = None\<rparr>)
   = Inl (OneClawApiError 500 ''HTTP 500'')
   \<and> fst (request (new_OneClawClient (ClientConfig ''https://api.1claw.xyz'' ''jwt'' ''vault-1''))
     \<lparr>auth_env = \<lparr>now_check = 1000, exchange = Rejected, now_store = 1000\<rparr>,
      reply = Responded \<lparr>status = 404,
                error_json = Some \<lparr>body_type = Some ''not_found'', body_detail = None\<rparr>,
                data_json = (None :: unit option)\<rparr>\<rparr>
     ''https://api.1claw.xyz/v1/vaults'' \<lparr>init_method = None, init_body = None\<rparr>)
   = Inl (OneClawApiError 404 ''HTTP 404'')"
proof -
  let ?c = "new_OneClawClient (ClientConfig ''https://api.1claw.xyz'' ''jwt'' ''vault-1'')"
  let ?te = "\<lparr>now_check = 1000, exchange = Rejected, now_store = 1000\<rparr>"
  let ?r1 = "\<lparr>status = 500, error_json = None, data_json = (None :: unit option)\<rparr>"
  let ?r2 = "\<lparr>status = 404,
                error_json = Some \<lparr>body_type = Some ''not_found'', body_detail = None\<rparr>,
                data_json = (None :: unit option)\<rparr>"
  let ?e1 = "\<lparr>auth_env = ?te, reply = Responded ?r1\<rparr>"
  let ?e2 = "\<lparr>auth_env = ?te, reply = Responded ?r2\<rparr>"
  let ?h = "[(''Authorization'', ''Bearer jwt''), (''Content-Type'', ''application/json'')]"
  let ?init = "\<lparr>init_method = None, init_body = None\<rparr>"
  have hd1: "headers ?c (auth_env ?e1) = (Inr ?h, ?c, [])"
    and hd2: "headers ?c (auth_env ?e2) = (Inr ?h, ?c, [])"
    using headers_static_client [of "''https://api.1claw.xyz''" "''jwt''" "''vault-1''" ?te]
    by simp_all
  have rp1: "reply ?e1 = Responded ?r1" and rp2: "reply ?e2 = Responded ?r2" by simp_all
  have nok1: "\<not> ok ?r1" and nok2: "\<not> ok ?r2" by (simp_all add: ok_def)
  have st1: "status ?r1 \<noteq> 402" and st2: "status ?r2 \<noteq> 402" by simp_all
  have first: "fst (request ?c ?e1 ''https://api.1claw.xyz/v1/vaults'' ?init)
      = Inl (OneClawApiError 500 ''HTTP 500'')"
    using fallback_detail [OF hd1 rp1 nok1 st1, of "''https://api.1claw.xyz/v1/vaults''" ?init]
    by (simp add: decimal_500)
  have second: "fst (request ?c ?e2 ''https://api.1claw.xyz/v1/vaults'' ?init)
      = Inl (OneClawApiError 404 ''HTTP 404'')"
    using fallback_detail [OF hd2 rp2 nok2 st2, of "''https://api.1claw.xyz/v1/vaults''" ?init]
    by (simp add: decimal_404)
  from first second show ?thesis by blast
qed

text \<open>
  Claim C8. For a response to the \<open>fetch\<close> of \<open>request\<close>: status 204 returns \<open>undefined\<close>
  whatever the body is (also one that does not parse); any other 2xx status returns the parsed
  body, and fails with the \<open>SyntaxError\<close> of \<open>res.json()\<close> when the body does not parse.
\<close>

theorem success_body_handling:
  assumes hd: "headers c (auth_env e) = (Inr hdrs, c', calls)"
    and rp: "reply e = Responded res"
  shows
    "(status res = 204 \<longrightarrow>
        request c e url init = (Inr None, c', calls @ [ApiFetch url init hdrs]))
     \<and> (ok res \<and> status res \<noteq> 204 \<and> data_json res = None \<longrightarrow>
          request c e url init = (Inl SyntaxError, c', calls @ [ApiFetch url init hdrs]))
     \<and> (\<forall>v. ok res \<and> status res \<noteq> 204 \<and> data_json res = Some v \<longrightarrow>
          request c e url init = (Inr (Some v), c', calls @ [ApiFetch url init hdrs]))"
  using hd rp by (simp add: request_def Let_def ok_def)

theorem success_body_handling_witness:
  "fst (request (new_OneClawClient (ClientConfig ''https://api.1claw.xyz'' ''jwt'' ''vault-1''))
     \<lparr>auth_env = \<lparr>now_check = 1000, exchange = Rejected, now_store = 1000\<rparr>,
      reply = Responded \<lparr>status = 204, error_json = None, data_json = (None :: string option)\<rparr>\<rparr>
     ''https://api.1claw.xyz/v1/vaults/vault-1/secrets/a'' \<lparr>init_method = Some ''DELETE'', init_body = None\<rparr>)
   = Inr None
   \<and> fst (request (new_OneClawClient (ClientConfig ''https://api.1claw.xyz'' ''jwt'' ''vault-1''))
     \<lparr>auth_env = \<lparr>now_check = 1000, exchange = Rejected, now_store = 1000\<rparr>,
      reply = Responded \<lparr>status = 200, error_json = None, data_json = (None :: string option)\<rparr>\<rparr>
     ''https://api.1claw.xyz/v1/vaults'' \<lparr>init_method = None, init_body = None\<rparr>)
   = Inl SyntaxError
   \<and> fst (request (new_OneClawClient (ClientConfig ''https://api.1claw.xyz'' ''jwt'' ''vault-1''))
     \<lparr>auth_env = \<lparr>now_check = 1000, exchange = Rejected, now_store = 1000\<rparr>,
      reply = Responded \<lparr>status = 200, error_json = None, data_json = Some ''vaults''\<rparr>\<rparr>
     ''https://api.1claw.xyz/v1/vaults'' \<lparr>init_method = None, init_body = None\<rparr>)
   = Inr (Some ''vaults'')"
proof -
  let ?c = "new_OneClawClient (ClientConfig ''https://api.1claw.xyz'' ''jwt'' ''vault-1'')"
  let ?te = "\<lparr>now_check = 1000, exchange = Rejected, now_store = 1000\<rparr>"
  let ?r1 = "\<lparr>status = 204, error_json = None, data_json = (None :: string option)\<rparr>"
  let ?r2 = "\<lparr>status = 200, error_json = None, data_json = (None :: string option)\<rparr>"
  let ?r3 = "\<lparr>status = 200, error_json = None, data_json = Some ''vaults''\<rparr>"
  let ?e1 = "\<lparr>auth_env = ?te, reply = Responded ?r1\<rparr>"
  let ?e2 = "\<lparr>auth_env = ?te, reply = Responded ?r2\<rparr>"
  let ?e3 = "\<lparr>auth_env = ?te, reply = Responded ?r3\<rparr>"
  let ?h = "[(''Authorization'', ''Bearer jwt''), (''Content-Type'', ''application/json'')]"
  let ?init = "\<lparr>init_method = None, init_body = None\<rparr>"
  have hd1: "headers ?c (auth_env ?e1) = (Inr ?h, ?c, [])"
    and hd2: "headers ?c (auth_env ?e2) = (Inr ?h, ?c, [])"
    and hd3: "headers ?c (auth_env ?e3) = (Inr ?h, ?c, [])"
    using headers_static_client [of "''https://api.1claw.xyz''" "''jwt''" "''vault-1''" ?te]
    by simp_all
  have rp1: "reply ?e1 = Responded ?r1" and rp2: "reply ?e2 = Responded ?r2"
    and rp3: "reply ?e3 = Responded ?r3" by simp_all
  have first: "fst (request ?c ?e1 ''https://api.1claw.xyz/v1/vaults/vault-1/secrets/a''
       \<lparr>init_method = Some ''DELETE'', init_body = None\<rparr>) = Inr None"
    using success_body_handling [OF hd1 rp1, of "''https://api.1claw.xyz/v1/vaults/vault-1/secrets/a''"
        "\<lparr>init_method = Some ''DELETE'', init_body = None\<rparr>"]
    by simp
  have second: "fst (request ?c ?e2 ''https://api.1claw.xyz/v1/vaults'' ?init) = Inl SyntaxError"
    using success_body_handling [OF hd2 rp2, of "''https://api.1claw.xyz/v1/vaults''" ?init]
    by (simp add: ok_def)
  have third: "fst (request ?c ?e3 ''https://api.1claw.xyz/v1/vaults'' ?init) = Inr (Some ''vaults'')"
    using success_body_handling [OF hd3 rp3, of "''https://api.1claw.xyz/v1/vaults''" ?init]
    by (simp add: ok_def)
  from first second third show ?thesis by blast
qed

section \<open>Path encoding: the claim\<close>

text \<open>
  Claim C6. \<open>encodePath\<close> on "a b/c#d" gives "a%20b/c%23d"; a space, a percent sign and a
  hash are encoded as %20, %25 and %23. For every path on which \<open>encodePath\<close> returns, the
  result is the slash-join of the encodings of the slash-separated pieces of the path, splitting
  the result on the slash gives back exactly those encoded pieces (so the piece boundaries are
  kept), and the result consists of slashes, percent signs and unescaped ASCII characters
  only. \<open>encodePath\<close> returns exactly on the paths without an unpaired surrogate; on the others
  the exception is the \<open>URIError\<close> of \<open>encodeURIComponent\<close>.
\<close>

theorem encodePath_segmentwise:
  "encodePath (ascii ''a b/c#d'') = Inr (ascii ''a%20b/c%23d'')
   \<and> encodeURIComponent (ascii '' '') = Inr (ascii ''%20'')
   \<and> encodeURIComponent (ascii ''%'') = Inr (ascii ''%25'')
   \<and> encodeURIComponent (ascii ''#'') = Inr (ascii ''%23'')
   \<and> (\<forall>q. encodePath p = Inr q \<longrightarrow>
         (\<exists>segs. map Inr segs = map encodeURIComponent (split_on SLASH p)
                \<and> q = join_with SLASH segs)
         \<and> map Inr (split_on SLASH q) = map encodeURIComponent (split_on SLASH p)
         \<and> (\<forall>u \<in> set q. u = SLASH \<or> u = PERCENT \<or> is_unescaped u))
   \<and> ((\<exists>q. encodePath p = Inr q) = well_formed p)
   \<and> (\<forall>err. encodePath p = Inl err \<longrightarrow> err = URIError)"
proof -
  have ex: "encodePath (ascii ''a b/c#d'') = Inr (ascii ''a%20b/c%23d'')"
    by (simp add: encode_eval)
  have sp: "encodeURIComponent (ascii '' '') = Inr (ascii ''%20'')"
    by (simp add: encode_eval)
  have pc: "encodeURIComponent (ascii ''%'') = Inr (ascii ''%25'')"
    by (simp add: encode_eval)
  have hs: "encodeURIComponent (ascii ''#'') = Inr (ascii ''%23'')"
    by (simp add: encode_eval)
  have seg: "\<forall>q. encodePath p = Inr q \<longrightarrow>
         (\<exists>segs. map Inr segs = map encodeURIComponent (split_on SLASH p)
                \<and> q = join_with SLASH segs)
         \<and> map Inr (split_on SLASH q) = map encodeURIComponent (split_on SLASH p)
         \<and> (\<forall>u \<in> set q. u = SLASH \<or> u = PERCENT \<or> is_unescaped u)"
    using encodePath_join [of p] encodePath_segments [of p] encodePath_alphabet [of p]
    by blast
  have err: "\<forall>err. encodePath p = Inl err \<longrightarrow> err = URIError"
    using encodePath_error [of p] by blast
  from ex sp pc hs seg encodePath_well_formed [of p] err show ?thesis
    by blast
qed

theorem encodePath_segmentwise_witness:
  "map Inr (split_on SLASH (ascii ''a%C3%A9/%F0%9F%98%80%E2%82%AC''))
     = map encodeURIComponent (split_on SLASH [0x61, 0xE9, 0x2F, 0xD83D, 0xDE00, 0x20AC])
   \<and> encodePath [0x61, 0xE9, 0x2F, 0xD83D, 0xDE00, 0x20AC]
     = Inr (ascii ''a%C3%A9/%F0%9F%98%80%E2%82%AC'')
   \<and> well_formed [0x61, 0xE9, 0x2F, 0xD83D, 0xDE00, 0x20AC]
   \<and> encodePath [0x61, 0x2F, 0xD83D] = Inl URIError
   \<and> \<not> well_formed [0x61, 0x2F, 0xD83D]"
proof -
  let ?p = "[0x61, 0xE9, 0x2F, 0xD83D, 0xDE00, 0x20AC] :: js_string"
  let ?bad = "[0x61, 0x2F, 0xD83D] :: js_string"
  have wf: "well_formed ?p" by (simp add: is_lead_def is_trail_def)
  from encodePath_segmentwise [of ?p] wf obtain q where q: "encodePath ?p = Inr q"
    by blast
  with encodePath_segmentwise [of ?p]
  have segs: "map Inr (split_on SLASH q) = map encodeURIComponent (split_on SLASH ?p)"
    by blast
  have val: "encodePath ?p = Inr (ascii ''a%C3%A9/%F0%9F%98%80%E2%82%AC'')"
    by (simp add: encode_eval)
  with q have qv: "q = ascii ''a%C3%A9/%F0%9F%98%80%E2%82%AC''" by simp
  have nwf: "\<not> well_formed ?bad" by (simp add: is_lead_def is_trail_def)
  with encodePath_segmentwise [of ?bad] have "\<not> (\<exists>q. encodePath ?bad = Inr q)" by blast
  then obtain err where e: "encodePath ?bad = Inl err" by (cases "encodePath ?bad") auto
  with encodePath_segmentwise [of ?bad] have "err = URIError" by blast
  with e segs qv val wf nwf show ?thesis by simp
qed

section \<open>Session routing\<close>

text \<open>
  Claim C9. With no session and no shared client, \<open>resolveClient\<close> throws the \<open>UserError\<close>
  "Not authenticated ...", which is no \<open>OneClawApiError\<close>; with a session it returns a new
  static-token client built from the session's token and vault id (whether or not a shared
  client exists); with no session and a shared client it returns the shared client. The
  \<open>execute\<close> installed by \<open>registerTool\<close> fails or runs the tool on that client accordingly.
\<close>

theorem resolveClient_cases:
  "resolveClient base None None
     = Inl (UserError ''Not authenticated. Provide Authorization and X-Vault-ID headers.'')
   \<and> (\<forall>st d. resolveClient base None None \<noteq> Inl (OneClawApiError st d))
   \<and> resolveClient base shared (Some s)
     = Inr (new_OneClawClient (ClientConfig base (session_token s) (session_vaultId s)))
   \<and> resolveClient base (Some g) None = Inr g
   \<and> registered_execute base None factory args None
     = Inl (UserError ''Not authenticated. Provide Authorization and X-Vault-ID headers.'')
   \<and> registered_execute base shared factory args (Some s)
     = factory (new_OneClawClient (ClientConfig base (session_token s) (session_vaultId s))) args
   \<and> registered_execute base (Some g) factory args None = factory g args"
  by (simp add: resolveClient_def registered_execute_def)

end
